theory Spec2Isabelle
  imports Main "HOL-Library.Sublist"
begin

section \<open>Python values, exceptions and the operating system\<close>

text \<open>
  The recording scripts are Python programs that drive external processes and the file
  system.  Every function of the scripts is embedded as a HOL function on an explicit
  state; what the outside world answers (a CDP reply, the result of an encoder run,
  whether a process obeys a signal) is a parameter of the function.
\<close>

datatype py_exn =
    ImportError | ConnectionRefused | WebSocketClosed | CaptureFailed
  | TypeError | AttributeError | ZeroDivisionError | ValueError | IndexError
  | UnicodeDecodeError | FileNotFoundError | FileExistsError | NotADirectoryError
  | ProcessLookupError | BrokenPipeError | TimeoutExpired | OtherError
  | RuntimeError string | KeyboardInterrupt | SystemExit int

text \<open>A call either returns a value or raises; the state it leaves is returned beside it.\<close>

datatype 'a outcome = Returns 'a | Raises py_exn

text \<open>Values decoded from a JSON body (numbers are integers; floats are not modelled).\<close>

datatype json =
    JNull | JBool bool | JInt int | JStr string
  | JArr "json list" | JObj "(string \<times> json) list"

text \<open>Python truthiness of a decoded value (\<^verbatim>\<open>if not debugger_url\<close>).\<close>

fun truthy :: "json \<Rightarrow> bool" where
  "truthy JNull = False"
| "truthy (JBool b) = b"
| "truthy (JInt n) = (n \<noteq> 0)"
| "truthy (JStr s) = (s \<noteq> [])"
| "truthy (JArr xs) = (xs \<noteq> [])"
| "truthy (JObj kvs) = (kvs \<noteq> [])"

text \<open>\<^verbatim>\<open>data.get(key, default)\<close>: only a dict has \<^verbatim>\<open>get\<close>.\<close>

fun dict_get :: "json \<Rightarrow> string \<Rightarrow> json \<Rightarrow> json outcome" where
  "dict_get (JObj kvs) k d = Returns (case map_of kvs k of None \<Rightarrow> d | Some v \<Rightarrow> v)"
| "dict_get _ k d = Raises AttributeError"

text \<open>\<^verbatim>\<open>1000 // fps\<close> on a decoded value: \<^verbatim>\<open>bool\<close> is an \<^verbatim>\<open>int\<close> in Python.\<close>

fun floordiv :: "int \<Rightarrow> json \<Rightarrow> int outcome" where
  "floordiv a (JInt n) = (if n = 0 then Raises ZeroDivisionError else Returns (a div n))"
| "floordiv a (JBool b) = (if b then Returns a else Raises ZeroDivisionError)"
| "floordiv a _ = Raises TypeError"

subsection \<open>File system\<close>

text \<open>
  Regular files by path with their contents, and the set of directories.  Paths are
  plain strings; no normalisation, links or permissions.  Creating a directory with
  \<^verbatim>\<open>parents=True\<close> records the directory itself only.
\<close>

record filesys =
  files :: "string \<rightharpoonup> string"
  dirs :: "string set"

definition path_exists :: "filesys \<Rightarrow> string \<Rightarrow> bool" where
  "path_exists fs p = (files fs p \<noteq> None \<or> p \<in> dirs fs)"

definition dir_prefix :: "string \<Rightarrow> string" where
  "dir_prefix d = (if d \<noteq> [] \<and> last d = CHR ''/'' then d else d @ ''/'')"

definition inside :: "string \<Rightarrow> string \<Rightarrow> bool" where
  "inside d p = strict_prefix (dir_prefix d) p"

text \<open>\<^verbatim>\<open>os.path.join(a, b)\<close> for two components.\<close>

definition path_join :: "string \<Rightarrow> string \<Rightarrow> string" where
  "path_join a b =
     (if b \<noteq> [] \<and> hd b = CHR ''/'' then b
      else if a = [] \<or> last a = CHR ''/'' then a @ b
      else a @ ''/'' @ b)"

text \<open>\<^verbatim>\<open>Path(p).parent\<close>: the text before the last separator.\<close>

definition path_parent :: "string \<Rightarrow> string" where
  "path_parent p =
     (if CHR ''/'' \<notin> set p then ''.''
      else let d = rev (tl (dropWhile (\<lambda>c. c \<noteq> CHR ''/'') (rev p)))
           in if d = [] then ''/'' else d)"

text \<open>\<^verbatim>\<open>os.makedirs(d, exist_ok=True)\<close> and \<^verbatim>\<open>Path.mkdir(parents=True, exist_ok=True)\<close>.\<close>

definition makedirs_exist_ok :: "string \<Rightarrow> filesys \<Rightarrow> filesys" where
  "makedirs_exist_ok d fs = fs\<lparr>dirs := insert d (dirs fs)\<rparr>"

text \<open>\<^verbatim>\<open>os.makedirs(d)\<close>: raises when the path is already there.\<close>

definition makedirs :: "string \<Rightarrow> filesys \<Rightarrow> py_exn + filesys" where
  "makedirs d fs =
     (if path_exists fs d then Inl FileExistsError
      else Inr (fs\<lparr>dirs := insert d (dirs fs)\<rparr>))"

text \<open>\<^verbatim>\<open>shutil.rmtree(d)\<close>: the directory and everything inside it go.\<close>

definition rmtree :: "string \<Rightarrow> filesys \<Rightarrow> py_exn + filesys" where
  "rmtree d fs =
     (if d \<in> dirs fs then
        Inr (fs\<lparr>files := (\<lambda>p. if inside d p then None else files fs p),
                dirs := {p \<in> dirs fs. p \<noteq> d \<and> \<not> inside d p}\<rparr>)
      else if files fs d \<noteq> None then Inl NotADirectoryError
      else Inl FileNotFoundError)"

text \<open>\<^verbatim>\<open>shutil.rmtree(d, ignore_errors=True)\<close>.\<close>

definition rmtree_ignore_errors :: "string \<Rightarrow> filesys \<Rightarrow> filesys" where
  "rmtree_ignore_errors d fs = (case rmtree d fs of Inl e \<Rightarrow> fs | Inr fs' \<Rightarrow> fs')"

definition write_file :: "string \<Rightarrow> string \<Rightarrow> filesys \<Rightarrow> filesys" where
  "write_file p v fs = fs\<lparr>files := (files fs)(p \<mapsto> v)\<rparr>"

subsection \<open>Formatting integers\<close>

definition digit_char :: "nat \<Rightarrow> char" where
  "digit_char d = ''0123456789'' ! d"

function digits :: "nat \<Rightarrow> string" where
  "digits n = (if n < 10 then [digit_char n] else digits (n div 10) @ [digit_char (n mod 10)])"
  by pat_completeness auto
termination
  by (relation "measure id") auto

declare digits.simps [simp del]

text \<open>The format \<^verbatim>\<open>{n:06d}\<close> for \<^verbatim>\<open>n >= 0\<close>: at least six digits, zero padded.\<close>

definition fmt06d :: "nat \<Rightarrow> string" where
  "fmt06d n = replicate (6 - length (digits n)) CHR ''0'' @ digits n"

text \<open>\<^verbatim>\<open>str(n)\<close> for an integer.\<close>

definition str_int :: "int \<Rightarrow> string" where
  "str_int i = (if i < 0 then CHR ''-'' # digits (nat (- i)) else digits (nat i))"

subsection \<open>Reading integers and lines\<close>

definition digit_val :: "char \<Rightarrow> nat" where
  "digit_val c = of_char c - 48"

definition decimal_val :: "string \<Rightarrow> nat" where
  "decimal_val s = foldl (\<lambda>a c. 10 * a + digit_val c) 0 s"

definition is_digit :: "char \<Rightarrow> bool" where
  "is_digit c = (c \<in> set ''0123456789'')"

definition is_space :: "char \<Rightarrow> bool" where
  "is_space c = (c \<in> {CHR '' '', CHR 0x09, CHR 0x0A, CHR 0x0B, CHR 0x0C, CHR 0x0D})"

text \<open>\<^verbatim>\<open>s.strip()\<close>\<close>

definition strip :: "string \<Rightarrow> string" where
  "strip s = rev (dropWhile is_space (rev (dropWhile is_space s)))"

text \<open>
  \<^verbatim>\<open>int(s)\<close> on text: surrounding blanks, an optional sign, decimal digits
  (digit grouping with underscores is not modelled).
\<close>

definition py_int :: "string \<Rightarrow> int outcome" where
  "py_int s =
     (let t = strip s;
          neg = (t \<noteq> [] \<and> hd t = CHR ''-'');
          ds = (if t \<noteq> [] \<and> (hd t = CHR ''-'' \<or> hd t = CHR ''+'') then tl t else t)
      in if ds \<noteq> [] \<and> list_all is_digit ds
         then Returns (if neg then - int (decimal_val ds) else int (decimal_val ds))
         else Raises ValueError)"

text \<open>\<^verbatim>\<open>s.split(c)\<close> for a separator of one character.\<close>

fun split_on :: "char \<Rightarrow> string \<Rightarrow> string list" where
  "split_on c [] = [[]]"
| "split_on c (x # xs) =
     (if x = c then [] # split_on c xs
      else (case split_on c xs of [] \<Rightarrow> [[x]] | y # ys \<Rightarrow> (x # y) # ys))"

text \<open>\<^verbatim>\<open>f.readlines()\<close>, the line ends dropped (every use strips them).\<close>

definition readlines :: "string \<Rightarrow> string list" where
  "readlines s = (let ls = split_on CHR 0x0A s in if last ls = [] then butlast ls else ls)"

subsection \<open>Processes and the state outside the Python objects\<close>

text \<open>
  A child process, as far as the scripts can observe it: whether it is still running,
  the signals it was sent, and how it reacts (does it exit when it gets \<^verbatim>\<open>SIGINT\<close>,
  \<^verbatim>\<open>SIGTERM\<close>, or a \<^verbatim>\<open>q\<close> on its standard input, within the time the caller
  waits).  \<^verbatim>\<open>SIGKILL\<close> always ends it.
\<close>

datatype signal = SIGINT | SIGTERM | SIGKILL

record os_process =
  argv :: "string list"
  alive :: bool
  exits_on_int :: bool
  exits_on_term :: bool
  exits_on_q :: bool
  received :: "signal list"

text \<open>
  The state outside the Python objects: the file system, what the script printed, the
  command lines that \<^verbatim>\<open>subprocess.run\<close> ran to completion, and the processes
  started so far (the process identifier is the position in the list, from 1).  An
  argument of such a command line is literal text or \<^verbatim>\<open>str(v)\<close> of a Python value,
  kept symbolic.
\<close>

datatype arg = Lit string | Str json

record world =
  fsys :: filesys
  stdout :: "string list"
  ran :: "arg list list"
  procs :: "os_process list"

definition print :: "string \<Rightarrow> world \<Rightarrow> world" where
  "print l w = w\<lparr>stdout := stdout w @ [l]\<rparr>"

text \<open>
  What the machine contributes to a script that starts processes: what starting a
  command line gives (\<open>None\<close>: no such executable; otherwise the process as it is
  once the start-up wait of the caller is over).
\<close>

record machine =
  spawn :: "string list \<Rightarrow> os_process option"

text \<open>\<^verbatim>\<open>subprocess.Popen(cmd, ...)\<close>\<close>

definition Popen :: "machine \<Rightarrow> string list \<Rightarrow> world \<Rightarrow> nat outcome \<times> world" where
  "Popen m cmd w =
     (case spawn m cmd of
        None \<Rightarrow> (Raises FileNotFoundError, w)
      | Some p \<Rightarrow> (Returns (Suc (length (procs w))),
                   w\<lparr>procs := procs w @ [p\<lparr>argv := cmd, received := []\<rparr>]\<rparr>))"

definition proc_of :: "world \<Rightarrow> nat \<Rightarrow> os_process option" where
  "proc_of w pid = (if 0 < pid \<and> pid \<le> length (procs w) then Some (procs w ! (pid - 1)) else None)"

text \<open>\<^verbatim>\<open>proc.poll() is None\<close>\<close>

definition running :: "world \<Rightarrow> nat \<Rightarrow> bool" where
  "running w pid = (case proc_of w pid of None \<Rightarrow> False | Some p \<Rightarrow> alive p)"

definition deliver :: "signal \<Rightarrow> os_process \<Rightarrow> os_process" where
  "deliver s p =
     (if alive p
      then p\<lparr>received := received p @ [s],
             alive := \<not> (case s of SIGINT \<Rightarrow> exits_on_int p
                                  | SIGTERM \<Rightarrow> exits_on_term p
                                  | SIGKILL \<Rightarrow> True)\<rparr>
      else p)"

text \<open>
  \<^verbatim>\<open>proc.send_signal(s)\<close>, and with it \<^verbatim>\<open>terminate()\<close> and \<^verbatim>\<open>kill()\<close>:
  nothing is sent to a process that has ended.
\<close>

definition send_signal :: "nat \<Rightarrow> signal \<Rightarrow> world \<Rightarrow> world" where
  "send_signal pid s w =
     (if running w pid then w\<lparr>procs := (procs w)[pid - 1 := deliver s (procs w ! (pid - 1))]\<rparr>
      else w)"

text \<open>
  \<^verbatim>\<open>os.kill(pid, s)\<close> on a number read from a file.  A number that is not positive
  addresses process groups, which are not modelled.
\<close>

definition os_kill :: "int \<Rightarrow> signal \<Rightarrow> world \<Rightarrow> unit outcome \<times> world" where
  "os_kill pid s w =
     (if pid \<le> 0 then (Raises OtherError, w)
      else if running w (nat pid) then (Returns (), send_signal (nat pid) s w)
      else (Raises ProcessLookupError, w))"

text \<open>Writing \<^verbatim>\<open>q\<close> to the standard input of a process.\<close>

definition stdin_q :: "nat \<Rightarrow> world \<Rightarrow> world" where
  "stdin_q pid w =
     (if running w pid \<and> exits_on_q (procs w ! (pid - 1))
      then w\<lparr>procs := (procs w)[pid - 1 := (procs w ! (pid - 1))\<lparr>alive := False\<rparr>]\<rparr>
      else w)"

text \<open>
  What a signal does to the Python process itself.  A script that installs no handler
  has the interpreter's dispositions: \<^verbatim>\<open>SIGINT\<close> raises \<^verbatim>\<open>KeyboardInterrupt\<close>
  in the main thread, any other signal ends the process at once, with no
  \<^verbatim>\<open>finally\<close> block and no exit hook run (\<open>None\<close>).
\<close>

type_synonym handlers = "signal \<Rightarrow> py_exn option"

fun python_default :: handlers where
  "python_default SIGINT = Some KeyboardInterrupt"
| "python_default SIGTERM = None"
| "python_default SIGKILL = None"

text \<open>
  \<^verbatim>\<open>subprocess.run(cmd)\<close> while the script waits for the child: the child ends with
  a return code, or a signal reaches the script first.  When the signal raises in the
  script, \<^verbatim>\<open>subprocess.run\<close> kills the child and lets the exception through; when
  the signal ends the script, the child is left as it is.
\<close>

datatype child_event = Exits int | NoSuchProgram | Interrupted signal

datatype 'a progress = Went "'a outcome" | Died signal

definition subprocess_run ::
  "handlers \<Rightarrow> machine \<Rightarrow> string list \<Rightarrow> child_event \<Rightarrow> world \<Rightarrow> int progress \<times> world" where
  "subprocess_run hs m cmd ev w =
     (case ev of
        NoSuchProgram \<Rightarrow> (Went (Raises FileNotFoundError), w)
      | Exits rc \<Rightarrow> (Went (Returns rc), w\<lparr>ran := ran w @ [map Lit cmd]\<rparr>)
      | Interrupted s \<Rightarrow>
          (case Popen m cmd w of
             (Raises e, w') \<Rightarrow> (Went (Raises e), w')
           | (Returns pid, w') \<Rightarrow>
               (case hs s of
                  None \<Rightarrow> (Died s, w')
                | Some e \<Rightarrow> (Went (Raises e), send_signal pid SIGKILL w'))))"

section \<open>scripts/screenshot\_recorder.py: the frame sampler\<close>

datatype websocket = WebSocket (connected: bool)

text \<open>The fields of \<^verbatim>\<open>ScreenshotRecorder.__init__\<close>.\<close>

record screenshot_recorder =
  cdp_url :: "string option"
  output_dir :: string
  fps :: json
  frames :: "string list"
  recording :: bool
  frame_count :: nat
  ws :: "websocket option"

definition init_recorder :: "string option \<Rightarrow> string option \<Rightarrow> json \<Rightarrow> screenshot_recorder" where
  "init_recorder url dir f =
     \<lparr>cdp_url = url,
      output_dir = (case dir of None \<Rightarrow> ''/tmp/dusk-screenshots''
                    | Some d \<Rightarrow> if d = [] then ''/tmp/dusk-screenshots'' else d),
      fps = f, frames = [], recording = False, frame_count = 0, ws = None\<rparr>"

text \<open>
  What the outside world contributes to one request of the control server: the JSON
  decoder, whether the websocket package is importable, whether a connection to a
  debugger URL is accepted, and what an encoder run does (\<open>None\<close>: no such executable;
  otherwise its return code, its error text, and what it wrote to its output file).
\<close>

record environment =
  json_loads :: "string \<Rightarrow> json option"
  has_websocket :: bool
  create_connection :: "json \<Rightarrow> bool"
  run_ffmpeg :: "arg list \<Rightarrow> filesys \<Rightarrow> (int \<times> string \<times> string option) option"

text \<open>What the browser answers to one \<^verbatim>\<open>Page.captureScreenshot\<close>.\<close>

datatype cdp_reply = ReplyData string | ReplyWithoutData | ReplyRaises py_exn

definition connect_cdp ::
  "environment \<Rightarrow> json \<Rightarrow> screenshot_recorder \<Rightarrow> bool outcome \<times> screenshot_recorder" where
  "connect_cdp env url r =
     (if \<not> has_websocket env then (Raises ImportError, r)
      else if create_connection env url then (Returns True, r\<lparr>ws := Some (WebSocket True)\<rparr>)
      else (Raises ConnectionRefused, r))"

definition take_screenshot_cdp :: "cdp_reply \<Rightarrow> screenshot_recorder \<Rightarrow> string option outcome" where
  "take_screenshot_cdp reply r =
     (case ws r of
        None \<Rightarrow> Returns None
      | Some c \<Rightarrow>
          if \<not> connected c then Raises WebSocketClosed
          else (case reply of
                  ReplyData d \<Rightarrow> Returns (Some d)
                | ReplyWithoutData \<Rightarrow> Returns None
                | ReplyRaises e \<Rightarrow> Raises e))"

definition frame_name :: "nat \<Rightarrow> string" where
  "frame_name n = ''frame_'' @ fmt06d n @ ''.png''"

definition frame_path :: "screenshot_recorder \<Rightarrow> nat \<Rightarrow> string" where
  "frame_path r n = path_join (output_dir r) (frame_name n)"

definition save_frame ::
  "string \<Rightarrow> screenshot_recorder \<Rightarrow> world \<Rightarrow> string \<times> screenshot_recorder \<times> world" where
  "save_frame frame_data r w =
     (let fs1 = makedirs_exist_ok (output_dir r) (fsys w);
          p = frame_path r (frame_count r);
          fs2 = write_file p frame_data fs1
      in (p, r\<lparr>frame_count := frame_count r + 1\<rparr>, w\<lparr>fsys := fs2\<rparr>))"

text \<open>
  \<^verbatim>\<open>start_recording\<close> up to the start of the thread.  The thread itself is
  \<open>capture_loop\<close> below, run on the replies the browser gives while it is scheduled.
\<close>

definition start_recording ::
  "screenshot_recorder \<Rightarrow> world \<Rightarrow> unit outcome \<times> screenshot_recorder \<times> world" where
  "start_recording r w =
     (let r1 = r\<lparr>recording := True, frame_count := 0\<rparr>;
          d = output_dir r
      in case (if path_exists (fsys w) d then rmtree d (fsys w) else Inr (fsys w)) of
           Inl e \<Rightarrow> (Raises e, r1, w)
         | Inr fs1 \<Rightarrow>
             (case makedirs d fs1 of
                Inl e \<Rightarrow> (Raises e, r1, w\<lparr>fsys := fs1\<rparr>)
              | Inr fs2 \<Rightarrow> (Returns (), r1, w\<lparr>fsys := fs2\<rparr>)))"

text \<open>One pass through the body of \<^verbatim>\<open>while self.recording\<close>.\<close>

definition capture_once ::
  "cdp_reply \<Rightarrow> screenshot_recorder \<Rightarrow> world \<Rightarrow> screenshot_recorder \<times> world" where
  "capture_once reply r w =
     (case take_screenshot_cdp reply r of
        Raises e \<Rightarrow> (r, print ''Capture error'' w)
      | Returns None \<Rightarrow> (r, w)
      | Returns (Some frame) \<Rightarrow>
          if frame \<noteq> [] then (case save_frame frame r w of (p, r', w') \<Rightarrow> (r', w'))
          else (r, w))"


definition ffmpeg_cmd :: "screenshot_recorder \<Rightarrow> string \<Rightarrow> arg list" where
  "ffmpeg_cmd r output_file =
     [Lit ''ffmpeg'', Lit ''-y'',
      Lit ''-framerate'', Str (fps r),
      Lit ''-i'', Lit (path_join (output_dir r) ''frame_%06d.png''),
      Lit ''-c:v'', Lit ''libx264'',
      Lit ''-pix_fmt'', Lit ''yuv420p'',
      Lit ''-preset'', Lit ''fast'',
      Lit output_file]"

text \<open>
  \<^verbatim>\<open>create_video\<close>.  The result is \<^verbatim>\<open>None\<close> (\<open>JNull\<close>) or the output file, as it
  is later put into the JSON answer.  \<^verbatim>\<open>Path(output_file)\<close> needs a string.
\<close>

definition create_video ::
  "environment \<Rightarrow> json \<Rightarrow> screenshot_recorder \<Rightarrow> world \<Rightarrow> json outcome \<times> world" where
  "create_video env output_file r w =
     (if frame_count r < 2 then (Returns JNull, print ''Not enough frames captured'' w)
      else (case output_file of
              JStr out \<Rightarrow>
                (let w1 = w\<lparr>fsys := makedirs_exist_ok (path_parent out) (fsys w)\<rparr>;
                     cmd = ffmpeg_cmd r out
                 in case run_ffmpeg env cmd (fsys w1) of
                      None \<Rightarrow> (Raises FileNotFoundError, w1)
                    | Some (returncode, err, written) \<Rightarrow>
                        (let fs2 = (case written of None \<Rightarrow> fsys w1
                                    | Some v \<Rightarrow> write_file out v (fsys w1));
                             fs3 = rmtree_ignore_errors (output_dir r) fs2;
                             w3 = w1\<lparr>fsys := fs3, ran := ran w1 @ [cmd]\<rparr>
                         in if returncode = 0
                            then (Returns (JStr out), print (''Video created: '' @ out) w3)
                            else (Returns JNull, print (''ffmpeg error: '' @ err) w3)))
            | _ \<Rightarrow> (Raises TypeError, w)))"

definition stop_recording ::
  "environment \<Rightarrow> json \<Rightarrow> screenshot_recorder \<Rightarrow> world
     \<Rightarrow> json outcome \<times> screenshot_recorder \<times> world" where
  "stop_recording env output_file r w =
     (let r1 = r\<lparr>recording := False\<rparr>;
          r2 = (case ws r1 of None \<Rightarrow> r1 | Some c \<Rightarrow> r1\<lparr>ws := Some (WebSocket False)\<rparr>)
      in case create_video env output_file r2 w of (res, w') \<Rightarrow> (res, r2, w'))"

subsection \<open>The control server: \<^verbatim>\<open>RecorderHTTPHandler\<close>\<close>

text \<open>
  The class attributes \<^verbatim>\<open>recorder\<close> and \<^verbatim>\<open>output_file\<close> are shared by all
  requests.  Recorder objects live in a store and are referred to by their position in
  it, since an object that the class attribute no longer names is still used by its own
  capture thread.
\<close>

record recorder_http_handler =
  objects :: "screenshot_recorder list"
  recorder :: "nat option"
  output_file :: json
  outside :: world

definition initial_handler :: "world \<Rightarrow> recorder_http_handler" where
  "initial_handler w = \<lparr>objects = [], recorder = None, output_file = JNull, outside = w\<rparr>"

text \<open>
  A request as \<^verbatim>\<open>do_POST\<close> sees it: the path component of the URL, the
  \<^verbatim>\<open>Content-Length\<close> header, and what reading and decoding that many bytes gives.
\<close>

datatype header = Absent | IntValue int | NotAnInt

datatype payload = Text string | NotUtf8

record request =
  req_path :: string
  content_length :: header
  payload :: payload

text \<open>
  What the client gets: \<^verbatim>\<open>send_response\<close> with an optional JSON body,
  \<^verbatim>\<open>send_error\<close>, or nothing because the handler raised.
\<close>

datatype http_result = Response nat "json option" | ErrorResponse nat string | Unhandled py_exn

text \<open>The first lines of \<^verbatim>\<open>do_POST\<close>: the body text.\<close>

definition read_body :: "request \<Rightarrow> string outcome" where
  "read_body req =
     (case content_length req of
        NotAnInt \<Rightarrow> Raises ValueError
      | Absent \<Rightarrow> Returns []
      | IntValue n \<Rightarrow>
          if n > 0 then (case payload req of Text s \<Rightarrow> Returns s | NotUtf8 \<Rightarrow> Raises UnicodeDecodeError)
          else Returns [])"

text \<open>\<^verbatim>\<open>try: data = json.loads(body) if body else {} except: data = {}\<close>\<close>

definition parse_body :: "environment \<Rightarrow> string \<Rightarrow> json" where
  "parse_body env body =
     (if body \<noteq> [] then (case json_loads env body of Some j \<Rightarrow> j | None \<Rightarrow> JObj [])
      else JObj [])"

definition post_start ::
  "environment \<Rightarrow> json \<Rightarrow> recorder_http_handler \<Rightarrow> http_result \<times> recorder_http_handler" where
  "post_start env data h =
     (case dict_get data ''debugger_url'' JNull of
        Raises e \<Rightarrow> (Unhandled e, h)
      | Returns debugger_url \<Rightarrow>
     (case dict_get data ''output'' (JStr ''/tmp/dusk-recording.mp4'') of
        Raises e \<Rightarrow> (Unhandled e, h)
      | Returns output \<Rightarrow>
     (case dict_get data ''fps'' (JInt 10) of
        Raises e \<Rightarrow> (Unhandled e, h)
      | Returns fps_value \<Rightarrow>
          if \<not> truthy debugger_url then (ErrorResponse 400 ''debugger_url required'', h)
          else
            (let a = length (objects h);
                 h1 = h\<lparr>output_file := output\<rparr>;
                 h2 = h1\<lparr>objects := objects h1 @ [init_recorder None None fps_value],
                         recorder := Some a\<rparr>
             in case connect_cdp env debugger_url (objects h2 ! a) of
                  (Raises e, r) \<Rightarrow> (Unhandled e, h2\<lparr>objects := (objects h2)[a := r]\<rparr>)
                | (Returns ok, r) \<Rightarrow>
                    (let h3 = h2\<lparr>objects := (objects h2)[a := r]\<rparr>
                     in case floordiv 1000 fps_value of
                          Raises e \<Rightarrow> (Unhandled e, h3)
                        | Returns interval_ms \<Rightarrow>
                            (case start_recording r (outside h3) of
                               (Raises e, r', w') \<Rightarrow>
                                 (Unhandled e, h3\<lparr>objects := (objects h3)[a := r'], outside := w'\<rparr>)
                             | (Returns u, r', w') \<Rightarrow>
                                 (Response 200 (Some (JObj [(''status'', JStr ''recording'')])),
                                  h3\<lparr>objects := (objects h3)[a := r'], outside := w'\<rparr>)))))))"

definition post_frame ::
  "cdp_reply \<Rightarrow> recorder_http_handler \<Rightarrow> http_result \<times> recorder_http_handler" where
  "post_frame reply h =
     (case recorder h of
        None \<Rightarrow> (Response 200 None, h)
      | Some a \<Rightarrow>
          (let r = objects h ! a in
           if ws r = None then (Response 200 None, h)
           else (case take_screenshot_cdp reply r of
                   Raises e \<Rightarrow> (Unhandled e, h)
                 | Returns None \<Rightarrow> (Response 200 None, h)
                 | Returns (Some frame) \<Rightarrow>
                     if frame \<noteq> [] then
                       (case save_frame frame r (outside h) of
                          (p, r', w') \<Rightarrow>
                            (Response 200 None, h\<lparr>objects := (objects h)[a := r'], outside := w'\<rparr>))
                     else (Response 200 None, h))))"

definition post_stop ::
  "environment \<Rightarrow> recorder_http_handler \<Rightarrow> http_result \<times> recorder_http_handler" where
  "post_stop env h =
     (case recorder h of
        Some a \<Rightarrow>
          (case stop_recording env (output_file h) (objects h ! a) (outside h) of
             (res, r', w') \<Rightarrow>
               (let h' = h\<lparr>objects := (objects h)[a := r'], outside := w'\<rparr>
                in case res of
                     Raises e \<Rightarrow> (Unhandled e, h')
                   | Returns output \<Rightarrow>
                       (Response 200 (Some (JObj [(''status'', JStr ''stopped''), (''output'', output)])),
                        h')))
      | None \<Rightarrow> (ErrorResponse 400 ''No recording in progress'', h))"

definition do_POST ::
  "environment \<Rightarrow> cdp_reply \<Rightarrow> request \<Rightarrow> recorder_http_handler
     \<Rightarrow> http_result \<times> recorder_http_handler" where
  "do_POST env reply req h =
     (case read_body req of
        Raises e \<Rightarrow> (Unhandled e, h)
      | Returns body \<Rightarrow>
          (let data = parse_body env body in
           if req_path req = ''/start'' then post_start env data h
           else if req_path req = ''/frame'' then post_frame reply h
           else if req_path req = ''/stop'' then post_stop env h
           else (ErrorResponse 404 ''Not found'', h)))"

text \<open>
  Between two requests the capture thread of a recorder that is recording may run its
  loop body.  The server and its threads are run as a sequence of such events.
\<close>

datatype event = Post environment cdp_reply request | Capture nat cdp_reply

definition thread_step :: "nat \<Rightarrow> cdp_reply \<Rightarrow> recorder_http_handler \<Rightarrow> recorder_http_handler" where
  "thread_step a reply h =
     (if a < length (objects h) \<and> recording (objects h ! a)
      then (case capture_once reply (objects h ! a) (outside h) of
              (r', w') \<Rightarrow> h\<lparr>objects := (objects h)[a := r'], outside := w'\<rparr>)
      else h)"

fun serve :: "event list \<Rightarrow> recorder_http_handler \<Rightarrow> http_result list \<times> recorder_http_handler" where
  "serve [] h = ([], h)"
| "serve (Post env reply req # es) h =
     (case do_POST env reply req h of
        (res, h') \<Rightarrow> (case serve es h' of (rs, h'') \<Rightarrow> (res # rs, h'')))"
| "serve (Capture a reply # es) h = serve es (thread_step a reply h)"

section \<open>scripts/headless\_recorder.py: virtual display and streaming encoder\<close>

definition PID_FILE :: string where
  "PID_FILE = ''/tmp/dusk-recorder.pid''"

definition DISPLAY_NUM :: int where
  "DISPLAY_NUM = 99"

definition SCREEN_SIZE :: string where
  "SCREEN_SIZE = ''1920x1080x24''"

record headless_recorder =
  display :: int
  size' :: string
  xvfb_proc :: "nat option"
  ffmpeg_proc :: "nat option"

definition HeadlessRecorder :: "int \<Rightarrow> string \<Rightarrow> headless_recorder" where
  "HeadlessRecorder d s = \<lparr>display = d, size' = s, xvfb_proc = None, ffmpeg_proc = None\<rparr>"

definition start_xvfb ::
  "machine \<Rightarrow> headless_recorder \<Rightarrow> world \<Rightarrow> nat outcome \<times> headless_recorder \<times> world" where
  "start_xvfb m r w =
     (let cmd = [''Xvfb'', '':'' @ str_int (display r), ''-screen'', ''0'', size' r, ''-ac'']
      in case Popen m cmd w of
           (Raises e, w') \<Rightarrow> (Raises e, r, w')
         | (Returns pid, w') \<Rightarrow>
             (Returns pid, r\<lparr>xvfb_proc := Some pid\<rparr>,
              print (''Started Xvfb on display :'' @ str_int (display r)) w'))"

text \<open>\<^verbatim>\<open>HeadlessRecorder.start_recording\<close>\<close>

definition HeadlessRecorder_start_recording ::
  "machine \<Rightarrow> string \<Rightarrow> headless_recorder \<Rightarrow> world
     \<Rightarrow> nat outcome \<times> headless_recorder \<times> world" where
  "HeadlessRecorder_start_recording m out r w =
     (let w1 = w\<lparr>fsys := makedirs_exist_ok (path_parent out) (fsys w)\<rparr>;
          parts = split_on CHR ''x'' (size' r)
      in if length parts < 2 then (Raises IndexError, r, w1)
         else
           (let cmd = [''ffmpeg'', ''-y'', ''-f'', ''x11grab'',
                       ''-video_size'', parts ! 0 @ ''x'' @ parts ! 1,
                       ''-framerate'', ''15'',
                       ''-i'', '':'' @ str_int (display r),
                       ''-c:v'', ''libx264'', ''-preset'', ''ultrafast'',
                       ''-pix_fmt'', ''yuv420p'', out]
            in case Popen m cmd w1 of
                 (Raises e, w') \<Rightarrow> (Raises e, r, w')
               | (Returns pid, w') \<Rightarrow>
                   (Returns pid, r\<lparr>ffmpeg_proc := Some pid\<rparr>,
                    print (''Started recording to '' @ out) w')))"

text \<open>
  \<^verbatim>\<open>HeadlessRecorder.stop\<close>: \<^verbatim>\<open>q\<close> to the encoder and a wait of five seconds,
  \<^verbatim>\<open>terminate()\<close> when that raises; then \<^verbatim>\<open>terminate()\<close> for the display.
  For an encoder that has already ended neither branch sends anything.
\<close>

definition HeadlessRecorder_stop :: "headless_recorder \<Rightarrow> world \<Rightarrow> world" where
  "HeadlessRecorder_stop r w =
     (let w1 = (case ffmpeg_proc r of
                  None \<Rightarrow> w
                | Some pid \<Rightarrow>
                    (let wq = stdin_q pid w;
                         wt = (if running wq pid then send_signal pid SIGTERM wq else wq)
                     in print ''Stopped recording'' wt))
      in case xvfb_proc r of
           None \<Rightarrow> w1
         | Some pid \<Rightarrow> print ''Stopped Xvfb'' (send_signal pid SIGTERM w1))"

definition save_pids :: "nat \<Rightarrow> nat \<Rightarrow> string \<Rightarrow> world \<Rightarrow> world" where
  "save_pids xvfb_pid ffmpeg_pid out w =
     w\<lparr>fsys := write_file PID_FILE
                 (str_int (int xvfb_pid) @ [CHR 0x0A] @ str_int (int ffmpeg_pid) @ [CHR 0x0A]
                    @ out @ [CHR 0x0A])
                 (fsys w)\<rparr>"

text \<open>\<^verbatim>\<open>load_pids\<close>: all three values or none.\<close>

definition load_pids :: "world \<Rightarrow> (int \<times> int \<times> string) option outcome" where
  "load_pids w =
     (if \<not> path_exists (fsys w) PID_FILE then Returns None
      else (case files (fsys w) PID_FILE of
              None \<Rightarrow> Raises OtherError
            | Some text \<Rightarrow>
                (let lines = readlines text
                 in if length lines \<ge> 3 then
                      (case py_int (strip (lines ! 0)) of
                         Raises e \<Rightarrow> Raises e
                       | Returns x \<Rightarrow>
                           (case py_int (strip (lines ! 1)) of
                              Raises e \<Rightarrow> Raises e
                            | Returns f \<Rightarrow> Returns (Some (x, f, strip (lines ! 2)))))
                    else Returns None)))"

definition cleanup_pid_file :: "world \<Rightarrow> world" where
  "cleanup_pid_file w =
     (if path_exists (fsys w) PID_FILE
      then w\<lparr>fsys := (fsys w)\<lparr>files := (files (fsys w))(PID_FILE := None)\<rparr>\<rparr>
      else w)"

text \<open>The function \<^verbatim>\<open>start_recording\<close> of the module.\<close>

definition headless_start_recording ::
  "machine \<Rightarrow> string \<Rightarrow> int \<Rightarrow> string \<Rightarrow> world \<Rightarrow> (nat \<times> nat) outcome \<times> world" where
  "headless_start_recording m out d s w =
     (case start_xvfb m (HeadlessRecorder d s) w of
        (Raises e, r1, w1) \<Rightarrow> (Raises e, w1)
      | (Returns xvfb_pid, r1, w1) \<Rightarrow>
          (case HeadlessRecorder_start_recording m out r1 w1 of
             (Raises e, r2, w2) \<Rightarrow> (Raises e, w2)
           | (Returns ffmpeg_pid, r2, w2) \<Rightarrow>
               (Returns (xvfb_pid, ffmpeg_pid),
                print ''Stop recording with: python headless_recorder.py stop''
                  (print (''Run your tests with: DISPLAY=:'' @ str_int d @ '' php artisan dusk'')
                     (print ''Recording started!'' (save_pids xvfb_pid ffmpeg_pid out w2))))))"

text \<open>
  The function \<^verbatim>\<open>stop_recording\<close> of the module.  Only \<^verbatim>\<open>ProcessLookupError\<close>
  is caught around each \<^verbatim>\<open>os.kill\<close>.
\<close>

definition headless_stop_recording :: "world \<Rightarrow> unit outcome \<times> world" where
  "headless_stop_recording w =
     (case load_pids w of
        Raises e \<Rightarrow> (Raises e, w)
      | Returns None \<Rightarrow> (Returns (), print ''No recording in progress'' w)
      | Returns (Some (xvfb_pid, ffmpeg_pid, out)) \<Rightarrow>
          if xvfb_pid = 0 then (Returns (), print ''No recording in progress'' w)
          else
            (case os_kill ffmpeg_pid SIGTERM w of
               (Raises e, w1) \<Rightarrow>
                 if e \<noteq> ProcessLookupError then (Raises e, w1)
                 else (case os_kill xvfb_pid SIGTERM w1 of
                         (Raises e', w2) \<Rightarrow>
                           if e' \<noteq> ProcessLookupError then (Raises e', w2)
                           else (Returns (),
                                 print (''Recording stopped. Output: '' @ out) (cleanup_pid_file w2))
                       | (Returns u, w2) \<Rightarrow>
                           (Returns (),
                            print (''Recording stopped. Output: '' @ out) (cleanup_pid_file w2)))
             | (Returns u, w1) \<Rightarrow>
                 (case os_kill xvfb_pid SIGTERM w1 of
                    (Raises e', w2) \<Rightarrow>
                      if e' \<noteq> ProcessLookupError then (Raises e', w2)
                      else (Returns (),
                            print (''Recording stopped. Output: '' @ out) (cleanup_pid_file w2))
                  | (Returns u', w2) \<Rightarrow>
                      (Returns (),
                       print (''Recording stopped. Output: '' @ out) (cleanup_pid_file w2)))))"

text \<open>
  \<^verbatim>\<open>run_with_recording\<close>.  Both starts are before the \<^verbatim>\<open>try\<close>; the
  \<^verbatim>\<open>finally\<close> block runs when the command returns or raises, not when a signal ends
  the script.  The script installs no signal handler.
\<close>

definition run_with_recording ::
  "machine \<Rightarrow> child_event \<Rightarrow> string \<Rightarrow> string \<Rightarrow> int \<Rightarrow> world \<Rightarrow> int progress \<times> world" where
  "run_with_recording m ev command out d w =
     (case start_xvfb m (HeadlessRecorder d SCREEN_SIZE) w of
        (Raises e, r1, w1) \<Rightarrow> (Went (Raises e), w1)
      | (Returns xvfb_pid, r1, w1) \<Rightarrow>
          (case HeadlessRecorder_start_recording m out r1 w1 of
             (Raises e, r2, w2) \<Rightarrow> (Went (Raises e), w2)
           | (Returns ffmpeg_pid, r2, w2) \<Rightarrow>
               (case subprocess_run python_default m [''/bin/sh'', ''-c'', command] ev w2 of
                  (Died s, w3) \<Rightarrow> (Died s, w3)
                | (Went res, w3) \<Rightarrow> (Went res, HeadlessRecorder_stop r2 w3))))"

section \<open>docker/record\_test.py: the recording driver in the container\<close>

text \<open>\<^verbatim>\<open>os.path.dirname\<close>\<close>

definition dirname :: "string \<Rightarrow> string" where
  "dirname p =
     (let head = rev (dropWhile (\<lambda>c. c \<noteq> CHR ''/'') (rev p))
      in if head \<noteq> [] \<and> \<not> list_all (\<lambda>c. c = CHR ''/'') head
         then rev (dropWhile (\<lambda>c. c = CHR ''/'') (rev head))
         else head)"

text \<open>\<^verbatim>\<open>shutil.move(src, dst)\<close> onto a path that is not a directory.\<close>

definition move :: "string \<Rightarrow> string \<Rightarrow> filesys \<Rightarrow> filesys" where
  "move src dst fs =
     (if src = dst then fs
      else fs\<lparr>files := (files fs)(dst := files fs src, src := None),
              dirs := (if src \<in> dirs fs then insert dst (dirs fs - {src}) else dirs fs)\<rparr>)"

record screen_recorder =
  sr_output_file :: string
  sr_display :: string
  resolution :: string
  sr_fps :: int
  process :: "nat option"
  temp_file :: string

text \<open>\<^verbatim>\<open>ScreenRecorder.__init__\<close>; the last argument is \<^verbatim>\<open>os.getpid()\<close>.\<close>

definition ScreenRecorder :: "string \<Rightarrow> string \<Rightarrow> string \<Rightarrow> int \<Rightarrow> nat \<Rightarrow> screen_recorder" where
  "ScreenRecorder out d res f pid =
     \<lparr>sr_output_file = out, sr_display = d, resolution = res, sr_fps = f, process = None,
      temp_file = ''/tmp/recording_'' @ str_int (int pid) @ ''.webm''\<rparr>"

text \<open>The command line of \<^verbatim>\<open>ScreenRecorder.start\<close>, and the method.\<close>

definition encoder_cmd :: "screen_recorder \<Rightarrow> string list" where
  "encoder_cmd r =
     [''ffmpeg'', ''-y'', ''-f'', ''x11grab'',
      ''-video_size'', resolution r,
      ''-framerate'', str_int (sr_fps r),
      ''-i'', sr_display r,
      ''-c:v'', ''libvpx-vp9'', ''-crf'', ''30'', ''-b:v'', ''0'',
      ''-pix_fmt'', ''yuv420p'', temp_file r]"

definition ScreenRecorder_start ::
  "machine \<Rightarrow> screen_recorder \<Rightarrow> world \<Rightarrow> nat outcome \<times> screen_recorder \<times> world" where
  "ScreenRecorder_start m r w =
     (if dirname (sr_output_file r) = [] then (Raises FileNotFoundError, r, w)
      else
        (let w1 = w\<lparr>fsys := makedirs_exist_ok (dirname (sr_output_file r)) (fsys w)\<rparr>
         in case Popen m (encoder_cmd r) w1 of
              (Raises e, w2) \<Rightarrow> (Raises e, r, w2)
            | (Returns pid, w2) \<Rightarrow>
                if \<not> running w2 pid
                then (Raises (RuntimeError ''Failed to start screen recording''),
                      r\<lparr>process := Some pid\<rparr>, w2)
                else (Returns pid, r\<lparr>process := Some pid\<rparr>, w2)))"

text \<open>
  \<^verbatim>\<open>ScreenRecorder.stop\<close>.  The first argument says whether sending the signal
  fails with an error of the operating system (the \<^verbatim>\<open>except Exception\<close> branch).
  \<^verbatim>\<open>wait(timeout=10)\<close> raises \<^verbatim>\<open>TimeoutExpired\<close> when the encoder is still
  running after the signal.
\<close>

definition ScreenRecorder_stop ::
  "bool \<Rightarrow> screen_recorder \<Rightarrow> world \<Rightarrow> string option \<times> world" where
  "ScreenRecorder_stop signal_fails r w =
     (case process r of
        None \<Rightarrow> (None, w)
      | Some pid \<Rightarrow>
          (let w1 = (if signal_fails then print ''Warning: Error stopping ffmpeg'' w
                     else (let ws = send_signal pid SIGINT w
                           in if running ws pid then send_signal pid SIGKILL ws else ws))
           in if path_exists (fsys w1) (temp_file r)
              then (Some (sr_output_file r),
                    w1\<lparr>fsys := move (temp_file r) (sr_output_file r)
                                 (makedirs_exist_ok (path_parent (sr_output_file r)) (fsys w1))\<rparr>)
              else (None, w1)))"

text \<open>
  The call \<^verbatim>\<open>recorder.stop()\<close> as \<^verbatim>\<open>main\<close> makes it.  The two calls that
  put the recording in its place, \<^verbatim>\<open>mkdir\<close> and \<^verbatim>\<open>shutil.move\<close>, can fail with
  an error of the operating system (no permission, a full disk, a file in the way),
  which the files and directories recorded here do not decide; the first argument is
  that error, if there is one.  The calls are made only when the temporary file exists,
  after the encoder was signalled, and nothing in \<^verbatim>\<open>stop\<close> catches what they raise;
  the file system is then taken as it was before the two calls.
\<close>

definition ScreenRecorder_stop_call ::
  "py_exn option \<Rightarrow> bool \<Rightarrow> screen_recorder \<Rightarrow> world \<Rightarrow> string option outcome \<times> world" where
  "ScreenRecorder_stop_call os_error signal_fails r w =
     (case ScreenRecorder_stop signal_fails r w of
        (final_file, w') \<Rightarrow>
          (case final_file of
             None \<Rightarrow> (Returns None, w')
           | Some p \<Rightarrow>
               (case os_error of
                  None \<Rightarrow> (Returns (Some p), w')
                | Some e \<Rightarrow> (Raises e, w'\<lparr>fsys := fsys w\<rparr>))))"

text \<open>
  What one run of the driver meets: whether the display answered in time, its own
  process identifier, what the encoder has written to its temporary file by the time
  it is stopped, how the Dusk run ends, whether signalling the encoder fails, the
  error that moving the recording to its place meets (if any), and whether the probe
  of the video gives a duration.
\<close>

record test_run =
  display_ready :: bool
  own_pid :: nat
  encoder_output :: "string option"
  dusk :: child_event
  signal_fails :: bool
  finalise_error :: "py_exn option"
  probe_duration :: bool

text \<open>
  How a script ends: with an exit code, with an exception nobody caught (the
  interpreter prints the traceback; after an error its exit code is 1), or killed by a
  signal.
\<close>

datatype exit_status = Exit int | Uncaught py_exn | Terminated signal

text \<open>
  \<^verbatim>\<open>sys.exit(n)\<close> with an integer.  The exit code that the parent of the script
  sees is one byte, the low eight bits of \<open>n\<close>: \<^verbatim>\<open>sys.exit(-9)\<close> is seen as 247.
\<close>

definition sys_exit :: "int \<Rightarrow> exit_status" where
  "sys_exit n = Exit (n mod 256)"

text \<open>
  \<^verbatim>\<open>run_dusk_test\<close>.  The value returned is the \<^verbatim>\<open>returncode\<close> of
  \<^verbatim>\<open>subprocess.run\<close>: the exit code of the test when it exited by itself, and
  \<open>- n\<close> when signal \<open>n\<close> killed it.
\<close>

definition run_dusk_test :: "machine \<Rightarrow> child_event \<Rightarrow> string \<Rightarrow> world \<Rightarrow> int progress \<times> world" where
  "run_dusk_test m ev test_file w =
     subprocess_run python_default m [''php'', ''artisan'', ''dusk'', test_file] ev w"

text \<open>
  \<^verbatim>\<open>main\<close> of \<^verbatim>\<open>record_test.py\<close>, from the wait for the display on; the
  output file has been computed from the arguments.  Numbers that are printed are
  left out of the printed lines.
\<close>

definition record_test_main ::
  "machine \<Rightarrow> test_run \<Rightarrow> string \<Rightarrow> string \<Rightarrow> string \<Rightarrow> string \<Rightarrow> int \<Rightarrow> world
     \<Rightarrow> exit_status \<times> world" where
  "record_test_main m t test_file out d res f w =
     (let w1 = print ''Waiting for virtual display...'' w;
          w2 = (if \<not> display_ready t
                then print ''Warning: Could not verify display is ready, continuing anyway...'' w1
                else w1);
          w3 = print ''Starting screen recording...'' w2
      in case ScreenRecorder_start m (ScreenRecorder out d res f (own_pid t)) w3 of
           (Raises e, r, w4) \<Rightarrow> (sys_exit 1, print ''ERROR: Failed to start recording'' w4)
         | (Returns pid, r, w4) \<Rightarrow>
             (case run_dusk_test m (dusk t) test_file (print ''Recording started'' w4) of
                (Died s, w5) \<Rightarrow> (Terminated s, w5)
              | (Went (Raises e), w5) \<Rightarrow> (Uncaught e, w5)
              | (Went (Returns test_exit_code), w5) \<Rightarrow>
                  (let w6 = print ''Stopping recording...'' (print ''Test completed'' w5);
                       w7 = (case encoder_output t of
                               None \<Rightarrow> w6
                             | Some v \<Rightarrow> w6\<lparr>fsys := write_file (temp_file r) v (fsys w6)\<rparr>)
                   in case ScreenRecorder_stop_call (finalise_error t) (signal_fails t) r w7 of
                        (Raises e, w8) \<Rightarrow> (Uncaught e, w8)
                      | (Returns final_file, w8) \<Rightarrow>
                          (sys_exit test_exit_code,
                           (case final_file of
                              None \<Rightarrow> print ''WARNING: Recording file not created'' w8
                            | Some p \<Rightarrow>
                                if p \<noteq> [] \<and> path_exists (fsys w8) p
                                then (let w9 = print ''Size'' (print (''Recording saved: '' @ p) w8)
                                      in if probe_duration t then print ''Duration'' w9 else w9)
                                else print ''WARNING: Recording file not created'' w8)))))"

section \<open>docker/entrypoint.py: the services of the container\<close>

text \<open>\<^verbatim>\<open>ServiceManager.processes\<close>: names with process identifiers.\<close>

record service_manager =
  processes :: "(string \<times> nat) list"

text \<open>
  The handlers that \<^verbatim>\<open>main\<close> installs: \<^verbatim>\<open>sys.exit(0)\<close> for \<^verbatim>\<open>SIGTERM\<close> and
  \<^verbatim>\<open>SIGINT\<close>.
\<close>

fun entrypoint_handlers :: handlers where
  "entrypoint_handlers SIGINT = Some (SystemExit 0)"
| "entrypoint_handlers SIGTERM = Some (SystemExit 0)"
| "entrypoint_handlers SIGKILL = None"

text \<open>\<^verbatim>\<open>time.sleep\<close> during which a signal may reach the script.\<close>

definition sleep :: "handlers \<Rightarrow> signal option \<Rightarrow> unit progress" where
  "sleep hs incoming =
     (case incoming of
        None \<Rightarrow> Went (Returns ())
      | Some s \<Rightarrow> (case hs s of None \<Rightarrow> Died s | Some e \<Rightarrow> Went (Raises e)))"

text \<open>
  What one run of the container meets: a signal during either start-up wait, how the
  display check and the recording driver end (or which signal arrives meanwhile).
\<close>

record container_run =
  at_xvfb_wait :: "signal option"
  xdpyinfo :: child_event
  at_chromedriver_wait :: "signal option"
  record_test :: child_event

text \<open>
  \<^verbatim>\<open>ServiceManager.start_xvfb\<close>.  The display check sits in a \<^verbatim>\<open>try\<close> with a
  bare \<^verbatim>\<open>except\<close>, which also catches the exit raised by a signal handler.
\<close>

definition ServiceManager_start_xvfb ::
  "machine \<Rightarrow> container_run \<Rightarrow> string \<Rightarrow> string \<Rightarrow> service_manager \<Rightarrow> world
     \<Rightarrow> bool progress \<times> service_manager \<times> world" where
  "ServiceManager_start_xvfb m c d res sm w =
     (case Popen m [''Xvfb'', d, ''-screen'', ''0'', res, ''-ac''] w of
        (Raises e, w1) \<Rightarrow> (Went (Raises e), sm, w1)
      | (Returns pid, w1) \<Rightarrow>
          (let sm1 = sm\<lparr>processes := processes sm @ [(''Xvfb'', pid)]\<rparr>
           in case sleep entrypoint_handlers (at_xvfb_wait c) of
                Died s \<Rightarrow> (Died s, sm1, w1)
              | Went (Raises e) \<Rightarrow> (Went (Raises e), sm1, w1)
              | Went (Returns u) \<Rightarrow>
                  (case subprocess_run entrypoint_handlers m [''xdpyinfo'', ''-display'', d]
                          (xdpyinfo c) w1 of
                     (Died s, w2) \<Rightarrow> (Died s, sm1, w2)
                   | (Went (Raises e), w2) \<Rightarrow>
                       (Went (Returns False), sm1,
                        print (''Warning: Could not verify display '' @ d) w2)
                   | (Went (Returns rc), w2) \<Rightarrow>
                       if rc = 0
                       then (Went (Returns True), sm1,
                             print (''Virtual display started on '' @ d) w2)
                       else (Went (Returns False), sm1,
                             print (''Warning: Could not verify display '' @ d) w2))))"

definition start_chromedriver ::
  "machine \<Rightarrow> container_run \<Rightarrow> int \<Rightarrow> service_manager \<Rightarrow> world
     \<Rightarrow> bool progress \<times> service_manager \<times> world" where
  "start_chromedriver m c port sm w =
     (case Popen m [''chromedriver'', ''--port='' @ str_int port, ''--whitelisted-ips=''] w of
        (Raises e, w1) \<Rightarrow> (Went (Raises e), sm, w1)
      | (Returns pid, w1) \<Rightarrow>
          (let sm1 = sm\<lparr>processes := processes sm @ [(''ChromeDriver'', pid)]\<rparr>
           in case sleep entrypoint_handlers (at_chromedriver_wait c) of
                Died s \<Rightarrow> (Died s, sm1, w1)
              | Went (Raises e) \<Rightarrow> (Went (Raises e), sm1, w1)
              | Went (Returns u) \<Rightarrow>
                  if running w1 pid
                  then (Went (Returns True), sm1,
                        print (''ChromeDriver started on port '' @ str_int port) w1)
                  else (Went (Returns False), sm1,
                        print ''Warning: ChromeDriver may not have started correctly'' w1)))"

text \<open>
  \<^verbatim>\<open>stop_all\<close>, on the list already reversed: \<^verbatim>\<open>terminate()\<close>, a wait of five
  seconds, \<^verbatim>\<open>kill()\<close> when the wait raises.
\<close>

fun stop_each :: "(string \<times> nat) list \<Rightarrow> world \<Rightarrow> world" where
  "stop_each [] w = w"
| "stop_each ((name, pid) # ps) w =
     (if running w pid
      then (let wt = send_signal pid SIGTERM w;
                wk = (if running wt pid then send_signal pid SIGKILL wt else wt)
            in stop_each ps (print (''Stopped '' @ name) wk))
      else stop_each ps w)"

definition stop_all :: "service_manager \<Rightarrow> world \<Rightarrow> world" where
  "stop_all sm w = stop_each (rev (processes sm)) w"

text \<open>\<^verbatim>\<open>run_recording\<close> of \<^verbatim>\<open>entrypoint.py\<close>\<close>

definition run_recording ::
  "machine \<Rightarrow> child_event \<Rightarrow> string \<Rightarrow> string option \<Rightarrow> (string \<times> string option) list \<Rightarrow> world
     \<Rightarrow> int progress \<times> world" where
  "run_recording m ev test_file output_name kwargs w =
     (let cmd = [''python3'', ''/usr/local/bin/record_test.py'', test_file]
                @ (case output_name of None \<Rightarrow> [] | Some n \<Rightarrow> if n = [] then [] else [n])
                @ concat (map (\<lambda>(key, v). case v of None \<Rightarrow> []
                                 | Some x \<Rightarrow> [''--'' @ map (\<lambda>c. if c = CHR ''_'' then CHR ''-'' else c) key, x])
                              kwargs)
      in subprocess_run entrypoint_handlers m cmd ev w)"

text \<open>
  The exit hook \<^verbatim>\<open>cleanup\<close> runs whenever the interpreter exits by itself, whether
  through \<^verbatim>\<open>sys.exit\<close> or through an exception nobody caught.
\<close>

definition at_exit :: "service_manager \<Rightarrow> py_exn \<Rightarrow> world \<Rightarrow> exit_status \<times> world" where
  "at_exit sm e w =
     ((case e of SystemExit n \<Rightarrow> sys_exit n | _ \<Rightarrow> Uncaught e), stop_all sm w)"

text \<open>\<^verbatim>\<open>main\<close> of \<^verbatim>\<open>entrypoint.py\<close>, on the parsed arguments.\<close>

definition entrypoint_main ::
  "machine \<Rightarrow> container_run \<Rightarrow> string option \<Rightarrow> string option \<Rightarrow> string \<Rightarrow> string \<Rightarrow> int \<Rightarrow> int
     \<Rightarrow> world \<Rightarrow> exit_status \<times> world" where
  "entrypoint_main m c test_file output_name d res f port w =
     (case test_file of
        None \<Rightarrow> (sys_exit 0, print ''No test file specified.'' w)
      | Some tf \<Rightarrow>
          if tf = [] then (sys_exit 0, print ''No test file specified.'' w)
          else
            (case ServiceManager_start_xvfb m c d (res @ ''x24'') \<lparr>processes = []\<rparr>
                    (print ''Starting services...'' w) of
               (Died s, sm1, w1) \<Rightarrow> (Terminated s, w1)
             | (Went (Raises e), sm1, w1) \<Rightarrow> at_exit sm1 e w1
             | (Went (Returns ok), sm1, w1) \<Rightarrow>
                 if \<not> ok
                 then at_exit sm1 (SystemExit 1) (print ''ERROR: Failed to start virtual display'' w1)
                 else
                   (case start_chromedriver m c port sm1 w1 of
                      (Died s, sm2, w2) \<Rightarrow> (Terminated s, w2)
                    | (Went (Raises e), sm2, w2) \<Rightarrow> at_exit sm2 e w2
                    | (Went (Returns ok2), sm2, w2) \<Rightarrow>
                        if \<not> ok2
                        then at_exit sm2 (SystemExit 1) (print ''ERROR: Failed to start ChromeDriver'' w2)
                        else
                          (case run_recording m (record_test c) tf output_name
                                  [(''display'', Some d), (''resolution'', Some res),
                                   (''fps'', Some (str_int f))]
                                  (print ''Services ready. Starting test recording...'' w2) of
                             (Died s, w3) \<Rightarrow> (Terminated s, w3)
                           | (Went (Raises e), w3) \<Rightarrow> at_exit sm2 e w3
                           | (Went (Returns exit_code), w3) \<Rightarrow>
                               at_exit sm2 (SystemExit exit_code) w3))))"

section \<open>Notions and inputs used in the statements\<close>

fun delivered :: "screenshot_recorder \<Rightarrow> cdp_reply \<Rightarrow> string option" where
  "delivered r (ReplyData d) =
     (if (case ws r of None \<Rightarrow> False | Some c \<Rightarrow> connected c) \<and> d \<noteq> [] then Some d else None)"
| "delivered r _ = None"

definition captured_frames :: "screenshot_recorder \<Rightarrow> cdp_reply list \<Rightarrow> string list" where
  "captured_frames r replies = List.map_filter (delivered r) replies"

definition demo_world :: world where
  "demo_world = \<lparr>fsys = \<lparr>files = Map.empty, dirs = {}\<rparr>, stdout = [], ran = [], procs = []\<rparr>"

definition demo_recorder :: screenshot_recorder where
  "demo_recorder = (init_recorder None None (JInt 10))\<lparr>ws := Some (WebSocket True)\<rparr>"


definition demo_full_world :: world where
  "demo_full_world =
     \<lparr>fsys = \<lparr>files = [''/tmp/dusk-screenshots/frame_000000.png'' \<mapsto> ''a'',
                        ''/tmp/dusk-screenshots/frame_000001.png'' \<mapsto> ''b''],
              dirs = {''/tmp/dusk-screenshots''}\<rparr>,
      stdout = [], ran = [], procs = []\<rparr>"

definition start_request :: "string \<Rightarrow> request" where
  "start_request body = \<lparr>req_path = ''/start'', content_length = IntValue (int (length body)), payload = Text body\<rparr>"

definition plain_request :: "string \<Rightarrow> request" where
  "plain_request p = \<lparr>req_path = p, content_length = Absent, payload = Text []\<rparr>"

definition server_env :: environment where
  "server_env =
     \<lparr>json_loads = (\<lambda>s. if s = ''A'' then Some (JObj [(''debugger_url'', JStr ''ws://a''), (''output'', JStr ''/tmp/a.mp4'')])
                         else if s = ''B'' then Some (JObj [(''debugger_url'', JStr ''ws://b''), (''output'', JStr ''/tmp/b.mp4'')])
                         else None),
      has_websocket = True,
      create_connection = (\<lambda>u. True),
      run_ffmpeg = (\<lambda>cmd fs.
         if files fs ''/tmp/dusk-screenshots/frame_000000.png'' \<noteq> None
         then Some (0, [], Some ''video'') else Some (1, ''no input'', None))\<rparr>"

text \<open>The same surroundings on a machine that has no encoder executable.\<close>

definition no_encoder :: environment where
  "no_encoder = server_env\<lparr>run_ffmpeg := (\<lambda>cmd fs. None)\<rparr>"

definition stop_twice :: "event list" where
  "stop_twice =
     [Post server_env ReplyWithoutData (start_request ''A''),
      Capture 0 (ReplyData ''x''), Capture 0 (ReplyData ''y''),
      Post server_env ReplyWithoutData (plain_request ''/stop''),
      Post server_env ReplyWithoutData (plain_request ''/stop'')]"

definition first_session :: recorder_http_handler where
  "first_session =
     snd (do_POST server_env ReplyWithoutData (start_request ''A'') (initial_handler demo_world))"

definition well_behaved :: os_process where
  "well_behaved = \<lparr>argv = [], alive = True, exits_on_int = True, exits_on_term = True,
                    exits_on_q = True, received = []\<rparr>"

definition full_machine :: machine where
  "full_machine = \<lparr>spawn = (\<lambda>cmd. Some well_behaved)\<rparr>"

definition no_ffmpeg :: machine where
  "no_ffmpeg =
     \<lparr>spawn = (\<lambda>cmd. if cmd \<noteq> [] \<and> hd cmd = ''ffmpeg'' then None else Some well_behaved)\<rparr>"

text \<open>The encoder of the driver comes up: its directory can be made and it is still
  running after the start-up wait.\<close>

definition encoder_starts :: "machine \<Rightarrow> screen_recorder \<Rightarrow> bool" where
  "encoder_starts m r =
     (dirname (sr_output_file r) \<noteq> [] \<and>
      (case spawn m (encoder_cmd r) of None \<Rightarrow> False | Some p \<Rightarrow> alive p))"

definition demo_run :: test_run where
  "demo_run = \<lparr>display_ready = True, own_pid = 7, encoder_output = None, dusk = Exits 2,
                signal_fails = False, finalise_error = None, probe_duration = True\<rparr>"

text \<open>A run whose test is killed by signal 9: \<^verbatim>\<open>subprocess.run\<close> returns \<open>- 9\<close>.\<close>

definition killed_run :: test_run where
  "killed_run = demo_run\<lparr>dusk := Exits (- 9)\<rparr>"

text \<open>
  The temporary file of the recorder is there when the encoder is stopped: the encoder
  wrote it, or something was at its path before the driver started (the directory made
  for the output file included).
\<close>

definition recording_written :: "test_run \<Rightarrow> screen_recorder \<Rightarrow> world \<Rightarrow> bool" where
  "recording_written t r w =
     (encoder_output t \<noteq> None \<or> path_exists (fsys w) (temp_file r)
      \<or> temp_file r = dirname (sr_output_file r))"



definition xvfb_up :: world where
  "xvfb_up = demo_world\<lparr>stdout := [''Started Xvfb on display :99''],
      procs := [well_behaved\<lparr>argv := [''Xvfb'', '':99'', ''-screen'', ''0'', ''1920x1080x24'', ''-ac'']\<rparr>]\<rparr>"

definition both_up :: world where
  "both_up = xvfb_up\<lparr>fsys := \<lparr>files = Map.empty, dirs = {''out''}\<rparr>,
      stdout := [''Started Xvfb on display :99'', ''Started recording to out/t.mp4''],
      procs := procs xvfb_up @
        [well_behaved\<lparr>argv := [''ffmpeg'', ''-y'', ''-f'', ''x11grab'', ''-video_size'',
            ''1920x1080'', ''-framerate'', ''15'', ''-i'', '':99'', ''-c:v'', ''libx264'',
            ''-preset'', ''ultrafast'', ''-pix_fmt'', ''yuv420p'', ''out/t.mp4'']\<rparr>]\<rparr>"

definition test_running :: world where
  "test_running = both_up\<lparr>procs := procs both_up @
       [well_behaved\<lparr>argv := [''/bin/sh'', ''-c'', ''php artisan dusk'']\<rparr>]\<rparr>"

definition all_stopped :: world where
  "all_stopped =
     HeadlessRecorder_stop
       ((HeadlessRecorder DISPLAY_NUM SCREEN_SIZE)\<lparr>xvfb_proc := Some 1, ffmpeg_proc := Some 2\<rparr>)
       (send_signal 3 SIGKILL test_running)"

definition xvfb_only :: world where
  "xvfb_only = xvfb_up\<lparr>fsys := \<lparr>files = Map.empty, dirs = {''out''}\<rparr>\<rparr>"

definition contained :: "world \<Rightarrow> service_manager \<Rightarrow> world \<Rightarrow> bool" where
  "contained w0 sm w = (\<forall>pid. running w pid \<longrightarrow> running w0 pid \<or> pid \<in> snd ` set (processes sm))"

definition no_sigkill :: "container_run \<Rightarrow> bool" where
  "no_sigkill c =
     (at_xvfb_wait c \<noteq> Some SIGKILL \<and> xdpyinfo c \<noteq> Interrupted SIGKILL \<and>
      at_chromedriver_wait c \<noteq> Some SIGKILL \<and> record_test c \<noteq> Interrupted SIGKILL)"

section \<open>Properties\<close>

subsection \<open>Frame names are distinct\<close>










subsection \<open>The capture loop\<close>



lemma frame_path_count [simp]: "frame_path (r\<lparr>frame_count := n\<rparr>) i = frame_path r i"
  by (simp add: frame_path_def)

lemma delivered_count [simp]: "delivered (r\<lparr>frame_count := n\<rparr>) x = delivered r x"
  by (cases x) simp_all

lemma captured_frames_count [simp]:
  "captured_frames (r\<lparr>frame_count := n\<rparr>) xs = captured_frames r xs"
  by (simp add: captured_frames_def map_filter_def cong: map_cong filter_cong)










subsection \<open>Stopping with fewer than two frames\<close>

text \<open>
  Claim C3.  Stopping a recorder that holds fewer than two frames returns \<^verbatim>\<open>None\<close>
  after printing that there are not enough frames.  It does not raise, the encoder is
  not run and the file system is left as it was, so no artifact is produced.
\<close>

theorem insufficient_frames_no_artifact:
  "frame_count r < 2 \<Longrightarrow> stop_recording env out r w = (res, r', w') \<Longrightarrow>
     res = Returns JNull \<and>
     stdout w' = stdout w @ [''Not enough frames captured''] \<and>
     fsys w' = fsys w \<and> ran w' = ran w \<and>
     \<not> recording r' \<and> frame_count r' = frame_count r"
  by (auto simp: stop_recording_def create_video_def print_def Let_def split: option.splits)

text \<open>A recorder that holds one frame.\<close>

theorem insufficient_frames_no_artifact_witness:
  "fst (stop_recording server_env (JStr ''/tmp/out.mp4'')
          (demo_recorder\<lparr>recording := True, frame_count := 1\<rparr>) demo_world) = Returns JNull"
proof -
  let ?r = "demo_recorder\<lparr>recording := True, frame_count := 1\<rparr>"
  let ?stop = "stop_recording server_env (JStr ''/tmp/out.mp4'') ?r demo_world"
  have few: "frame_count ?r < 2" by simp
  have "?stop = (fst ?stop, fst (snd ?stop), snd (snd ?stop))" by simp
  from insufficient_frames_no_artifact [OF few this] show ?thesis by simp
qed

subsection \<open>The frame directory is purged\<close>

lemma rmtree_ignore_errors_gone: "d \<notin> dirs (rmtree_ignore_errors d fs)"
  by (simp add: rmtree_ignore_errors_def rmtree_def)

lemma rmtree_ignore_errors_empty:
  "d \<in> dirs fs \<Longrightarrow> inside d p \<Longrightarrow>
     files (rmtree_ignore_errors d fs) p = None \<and> p \<notin> dirs (rmtree_ignore_errors d fs)"
  by (simp add: rmtree_ignore_errors_def rmtree_def)

lemma create_video_encoded:
  "2 \<le> frame_count r \<Longrightarrow>
   run_ffmpeg env (ffmpeg_cmd r out) (makedirs_exist_ok (path_parent out) (fsys w))
      = Some (returncode, err, written) \<Longrightarrow>
   fsys (snd (create_video env (JStr out) r w)) =
     rmtree_ignore_errors (output_dir r)
       (case written of None \<Rightarrow> makedirs_exist_ok (path_parent out) (fsys w)
        | Some v \<Rightarrow> write_file out v (makedirs_exist_ok (path_parent out) (fsys w)))"
  by (simp add: create_video_def Let_def print_def split: option.splits)

lemma not_inside_self: "\<not> inside d d"
proof -
  have "\<not> strict_prefix (d @ ''/'') d"
    using prefix_length_le [of "d @ ''/''" d] by (auto simp: strict_prefix_def)
  then show ?thesis by (simp add: inside_def dir_prefix_def)
qed

lemma start_recording_purges:
  "files (fsys w) (output_dir r) = None \<Longrightarrow>
     \<exists>r' w'. start_recording r w = (Returns (), r', w') \<and>
        output_dir r \<in> dirs (fsys w') \<and>
        (output_dir r \<in> dirs (fsys w) \<longrightarrow>
           (\<forall>p. inside (output_dir r) p \<longrightarrow> files (fsys w') p = None \<and> p \<notin> dirs (fsys w')))"
  by (auto simp: start_recording_def Let_def path_exists_def rmtree_def makedirs_def
                 not_inside_self)

text \<open>
  When the encoder could be run, whatever its return code, the frame directory is no
  longer a directory afterwards and nothing that was inside it is left; and a recording
  that starts removes what the frame directory held and leaves it empty.
\<close>

lemma frames_purged_when_encoder_returns:
  "(2 \<le> frame_count r \<longrightarrow>
    run_ffmpeg env (ffmpeg_cmd r out) (makedirs_exist_ok (path_parent out) (fsys w))
       = Some (returncode, err, written) \<longrightarrow>
    output_dir r \<notin> dirs (fsys (snd (create_video env (JStr out) r w))) \<and>
    (output_dir r \<in> dirs (fsys w) \<longrightarrow>
       (\<forall>p. inside (output_dir r) p \<longrightarrow>
          files (fsys (snd (create_video env (JStr out) r w))) p = None \<and>
          p \<notin> dirs (fsys (snd (create_video env (JStr out) r w)))))) \<and>
   (files (fsys w0) (output_dir r0) = None \<longrightarrow>
      (\<exists>r' w'. start_recording r0 w0 = (Returns (), r', w') \<and>
         output_dir r0 \<in> dirs (fsys w') \<and>
         (output_dir r0 \<in> dirs (fsys w0) \<longrightarrow>
            (\<forall>p. inside (output_dir r0) p \<longrightarrow> files (fsys w') p = None \<and> p \<notin> dirs (fsys w')))))"
proof (intro conjI impI)
  assume n: "2 \<le> frame_count r"
    and run: "run_ffmpeg env (ffmpeg_cmd r out) (makedirs_exist_ok (path_parent out) (fsys w))
       = Some (returncode, err, written)"
  note fs = create_video_encoded [OF n run]
  show "output_dir r \<notin> dirs (fsys (snd (create_video env (JStr out) r w)))"
    unfolding fs by (rule rmtree_ignore_errors_gone)
  assume d: "output_dir r \<in> dirs (fsys w)"
  then have d': "output_dir r \<in> dirs (case written of None \<Rightarrow> makedirs_exist_ok (path_parent out) (fsys w)
        | Some v \<Rightarrow> write_file out v (makedirs_exist_ok (path_parent out) (fsys w)))"
    by (simp add: makedirs_exist_ok_def write_file_def split: option.splits)
  show "\<forall>p. inside (output_dir r) p \<longrightarrow>
          files (fsys (snd (create_video env (JStr out) r w))) p = None \<and>
          p \<notin> dirs (fsys (snd (create_video env (JStr out) r w)))"
    unfolding fs using rmtree_ignore_errors_empty [OF d'] by blast
next
  assume "files (fsys w0) (output_dir r0) = None"
  then show "\<exists>r' w'. start_recording r0 w0 = (Returns (), r', w') \<and>
         output_dir r0 \<in> dirs (fsys w') \<and>
         (output_dir r0 \<in> dirs (fsys w0) \<longrightarrow>
            (\<forall>p. inside (output_dir r0) p \<longrightarrow> files (fsys w') p = None \<and> p \<notin> dirs (fsys w')))"
    by (rule start_recording_purges)
qed

text \<open>
  Claim C8 at a failing input.  The recorder holds two frames and the encoder
  executable is missing, so that the encode fails: \<^verbatim>\<open>subprocess.run\<close> raises, the
  line that removes the frame directory is not reached, and the directory and both
  frames are still there after the stop.
\<close>

theorem missing_encoder_leaves_frames:
  "fst (stop_recording no_encoder (JStr ''/tmp/out.mp4'')
          (demo_recorder\<lparr>recording := True, frame_count := 2\<rparr>) demo_full_world)
     = Raises FileNotFoundError \<and>
   ''/tmp/dusk-screenshots'' \<in> dirs (fsys (snd (snd (stop_recording no_encoder (JStr ''/tmp/out.mp4'')
          (demo_recorder\<lparr>recording := True, frame_count := 2\<rparr>) demo_full_world)))) \<and>
   files (fsys (snd (snd (stop_recording no_encoder (JStr ''/tmp/out.mp4'')
          (demo_recorder\<lparr>recording := True, frame_count := 2\<rparr>) demo_full_world))))
      ''/tmp/dusk-screenshots/frame_000000.png'' = Some ''a'' \<and>
   files (fsys (snd (snd (stop_recording no_encoder (JStr ''/tmp/out.mp4'')
          (demo_recorder\<lparr>recording := True, frame_count := 2\<rparr>) demo_full_world))))
      ''/tmp/dusk-screenshots/frame_000001.png'' = Some ''b''"
  by (simp add: stop_recording_def create_video_def no_encoder_def server_env_def
        demo_recorder_def init_recorder_def demo_full_world_def makedirs_exist_ok_def)

subsection \<open>The control server: unknown paths and malformed bodies\<close>




subsection \<open>The control server: a start while a session is active\<close>

text \<open>
  Claim C1 as stated fails: a start request that arrives while a recorder is recording
  is answered with 200; the class attributes then name a new recorder and the new
  output file, and both recorders are recording.
\<close>

theorem second_start_counterexample:
  "recorder first_session = Some 0 \<and> recording (objects first_session ! 0) \<and>
   output_file first_session = JStr ''/tmp/a.mp4'' \<and>
   fst (do_POST server_env ReplyWithoutData (start_request ''B'') first_session)
     = Response 200 (Some (JObj [(''status'', JStr ''recording'')])) \<and>
   recorder (snd (do_POST server_env ReplyWithoutData (start_request ''B'') first_session)) = Some 1 \<and>
   output_file (snd (do_POST server_env ReplyWithoutData (start_request ''B'') first_session))
     = JStr ''/tmp/b.mp4'' \<and>
   recording (objects (snd (do_POST server_env ReplyWithoutData (start_request ''B'') first_session)) ! 0) \<and>
   recording (objects (snd (do_POST server_env ReplyWithoutData (start_request ''B'') first_session)) ! 1)"
  by code_simp

lemma start_recording_returns:
  "files (fsys w) (output_dir r) = None \<Longrightarrow>
     \<exists>w'. start_recording r w = (Returns (), r\<lparr>recording := True, frame_count := 0\<rparr>, w')"
  by (auto simp: start_recording_def Let_def path_exists_def rmtree_def makedirs_def
                 not_inside_self)

text \<open>
  Claim C1, amended.  The server tracks one session, the recorder and the output file
  named by its class attributes.  A start request that arrives while a session is
  active and whose own start succeeds is not rejected: it is answered with 200, a new
  recorder (recording, frame counter 0) and the requested output file become the
  tracked session, and the recorder object of the earlier session is left as it was.
\<close>

theorem start_while_active_replaces_session:
  assumes active: "recorder h = Some a" "a < length (objects h)"
    and req: "req_path req = ''/start''" "read_body req = Returns body" "body \<noteq> []"
             "json_loads env body = Some (JObj kvs)"
    and url: "map_of kvs ''debugger_url'' = Some url" "truthy url"
    and conn: "has_websocket env" "create_connection env url"
    and fps: "floordiv 1000 (case map_of kvs ''fps'' of None \<Rightarrow> JInt 10 | Some v \<Rightarrow> v)
                = Returns interval_ms"
    and dir: "files (fsys (outside h)) ''/tmp/dusk-screenshots'' = None"
  shows "\<exists>h'. do_POST env reply req h
                 = (Response 200 (Some (JObj [(''status'', JStr ''recording'')])), h') \<and>
              recorder h' = Some (length (objects h)) \<and>
              length (objects h') = Suc (length (objects h)) \<and>
              objects h' ! a = objects h ! a \<and>
              recording (objects h' ! length (objects h)) \<and>
              frame_count (objects h' ! length (objects h)) = 0 \<and>
              output_file h'
                = (case map_of kvs ''output'' of None \<Rightarrow> JStr ''/tmp/dusk-recording.mp4''
                   | Some v \<Rightarrow> v)"
proof -
  let ?fps = "case map_of kvs ''fps'' of None \<Rightarrow> JInt 10 | Some v \<Rightarrow> v"
  let ?r = "(init_recorder None None ?fps)\<lparr>ws := Some (WebSocket True)\<rparr>"
  have "files (fsys (outside h)) (output_dir ?r) = None"
    using dir by (simp add: init_recorder_def)
  from start_recording_returns [OF this]
  obtain w' where st: "start_recording ?r (outside h)
       = (Returns (), ?r\<lparr>recording := True, frame_count := 0\<rparr>, w')" by blast
  have "do_POST env reply req h = post_start env (JObj kvs) h"
    using req by (simp add: do_POST_def parse_body_def)
  also have "\<dots> = (Response 200 (Some (JObj [(''status'', JStr ''recording'')])),
       h\<lparr>output_file := (case map_of kvs ''output'' of None \<Rightarrow> JStr ''/tmp/dusk-recording.mp4''
                   | Some v \<Rightarrow> v),
         objects := objects h @ [?r\<lparr>recording := True, frame_count := 0\<rparr>],
         recorder := Some (length (objects h)), outside := w'\<rparr>)"
    using url conn fps st by (simp add: post_start_def connect_cdp_def Let_def)
  finally show ?thesis using active by (simp add: nth_append)
qed

text \<open>The second of two start requests.\<close>

theorem start_while_active_replaces_session_witness:
  "\<exists>h'. do_POST server_env ReplyWithoutData (start_request ''B'') first_session
           = (Response 200 (Some (JObj [(''status'', JStr ''recording'')])), h') \<and>
        recorder h' = Some 1 \<and> objects h' ! 0 = objects first_session ! 0 \<and>
        output_file h' = JStr ''/tmp/b.mp4''"
proof -
  have a: "recorder first_session = Some 0" "0 < length (objects first_session)"
    and len: "length (objects first_session) = 1"
    and dir: "files (fsys (outside first_session)) ''/tmp/dusk-screenshots'' = None"
    by (simp_all add: first_session_def) code_simp+
  have req: "req_path (start_request ''B'') = ''/start''"
      "read_body (start_request ''B'') = Returns ''B''" "''B'' \<noteq> []"
      "json_loads server_env ''B''
         = Some (JObj [(''debugger_url'', JStr ''ws://b''), (''output'', JStr ''/tmp/b.mp4'')])"
    by (simp_all add: start_request_def read_body_def server_env_def)
  have url: "map_of [(''debugger_url'', JStr ''ws://b''), (''output'', JStr ''/tmp/b.mp4'')] ''debugger_url''
       = Some (JStr ''ws://b'')" "truthy (JStr ''ws://b'')"
    by simp_all
  have conn: "has_websocket server_env" "create_connection server_env (JStr ''ws://b'')"
    by (simp_all add: server_env_def)
  have fps: "floordiv 1000 (case map_of [(''debugger_url'', JStr ''ws://b''), (''output'', JStr ''/tmp/b.mp4'')] ''fps''
                of None \<Rightarrow> JInt 10 | Some v \<Rightarrow> v) = Returns 100"
    by simp
  from start_while_active_replaces_session [OF a req url conn fps dir, of ReplyWithoutData]
  show ?thesis unfolding len by auto
qed

subsection \<open>The control server: a stop while no session is active\<close>

text \<open>
  Claim C6 at a failing input.  After a start, two captured frames and a stop, no
  recording is in progress; a second stop is still answered with 200 and runs the
  encoder once more, because the class attribute keeps naming the stopped recorder.
\<close>

theorem second_stop_not_rejected:
  "fst (serve stop_twice (initial_handler demo_world)) =
     [Response 200 (Some (JObj [(''status'', JStr ''recording'')])),
      Response 200 (Some (JObj [(''status'', JStr ''stopped''), (''output'', JStr ''/tmp/a.mp4'')])),
      Response 200 (Some (JObj [(''status'', JStr ''stopped''), (''output'', JNull)]))] \<and>
   length (ran (outside (snd (serve stop_twice (initial_handler demo_world))))) = 2 \<and>
   stdout (outside (snd (serve stop_twice (initial_handler demo_world))))
     = [''Video created: /tmp/a.mp4'', ''ffmpeg error: no input'']"
  by code_simp

text \<open>
  Where no recorder was ever started the stop request is rejected without any effect,
  and so is the stop command of the headless recorder when there is no process file.
\<close>

lemma stop_without_recorder:
  "recorder h = None \<Longrightarrow> req_path req = ''/stop'' \<Longrightarrow> read_body req = Returns body \<Longrightarrow>
     do_POST env reply req h = (ErrorResponse 400 ''No recording in progress'', h)"
  by (simp add: do_POST_def post_stop_def)

lemma headless_stop_without_pid_file:
  "\<not> path_exists (fsys w) PID_FILE \<Longrightarrow>
     headless_stop_recording w = (Returns (), print ''No recording in progress'' w)"
  by (simp add: headless_stop_recording_def load_pids_def)

subsection \<open>Processes and signals\<close>

lemma print_procs [simp]: "procs (print l w) = procs w"
  and print_fsys [simp]: "fsys (print l w) = fsys w"
  by (simp_all add: print_def)

lemma running_print [simp]: "running (print l w) pid = running w pid"
  by (simp add: running_def proc_of_def)

lemma proc_of_print [simp]: "proc_of (print l w) pid = proc_of w pid"
  by (simp add: proc_of_def)

lemma send_signal_fsys [simp]: "fsys (send_signal pid s w) = fsys w"
  by (simp add: send_signal_def)

lemma send_signal_stdout [simp]: "stdout (send_signal pid s w) = stdout w"
  by (simp add: send_signal_def)

lemma send_signal_length [simp]: "length (procs (send_signal pid s w)) = length (procs w)"
  by (simp add: send_signal_def)


lemma running_send_signal:
  "running (send_signal pid' s w) pid \<Longrightarrow> running w pid"
  by (auto simp: send_signal_def running_def proc_of_def deliver_def nth_list_update
           split: if_splits)

lemma not_running_after_kill: "\<not> running (send_signal pid SIGKILL w) pid"
  by (auto simp: send_signal_def running_def proc_of_def deliver_def split: if_splits)

lemma running_Popen:
  "Popen m cmd w = (res, w') \<Longrightarrow> running w' pid \<Longrightarrow>
     running w pid \<or> res = Returns pid"
  by (auto simp: Popen_def running_def proc_of_def nth_append split: option.splits if_splits)

lemma Popen_raises_same: "Popen m cmd w = (Raises e, w') \<Longrightarrow> w' = w"
  by (auto simp: Popen_def split: option.splits)

subsection \<open>Stopping the streaming encoder\<close>



subsection \<open>The exit code of the recording driver\<close>

lemma ScreenRecorder_start_succeeds:
  "encoder_starts m r \<Longrightarrow>
     \<exists>pid w'. ScreenRecorder_start m r w = (Returns pid, r\<lparr>process := Some pid\<rparr>, w') \<and>
        stdout w' = stdout w \<and>
        fsys w' = makedirs_exist_ok (dirname (sr_output_file r)) (fsys w)"
  by (auto simp: encoder_starts_def ScreenRecorder_start_def Popen_def Let_def running_def
                 proc_of_def split: option.splits)

text \<open>\<open>encoder_starts\<close> says no more and no less than that \<^verbatim>\<open>start\<close> returns.\<close>

lemma encoder_starts_iff:
  "encoder_starts m r = (\<exists>pid r' w'. ScreenRecorder_start m r w = (Returns pid, r', w'))"
  by (auto simp: encoder_starts_def ScreenRecorder_start_def Popen_def Let_def running_def
                 proc_of_def split: option.splits if_splits)

lemma subprocess_run_exits:
  "subprocess_run hs m cmd (Exits rc) w = (Went (Returns rc), w\<lparr>ran := ran w @ [map Lit cmd]\<rparr>)"
  by (simp add: subprocess_run_def)

lemma ScreenRecorder_stop_result:
  "ScreenRecorder_stop sf r w = (res, w') \<Longrightarrow>
     (res = None \<or> res = Some (sr_output_file r) \<and> path_exists (fsys w') (sr_output_file r))"
  by (auto simp: ScreenRecorder_stop_def Let_def move_def path_exists_def makedirs_exist_ok_def
           split: option.splits if_splits)

lemma ScreenRecorder_stop_none:
  "process r = Some pid \<Longrightarrow> ScreenRecorder_stop sf r w = (res, w') \<Longrightarrow>
     (res = None) = (\<not> path_exists (fsys w) (temp_file r)) \<and>
     (res = None \<longrightarrow> fsys w' = fsys w)"
  by (auto simp: ScreenRecorder_stop_def Let_def print_def split: option.splits if_splits)

lemma dirname_Nil: "dirname [] = []"
  by (simp add: dirname_def)

text \<open>
  Claim C10 as stated fails where the test is killed by a signal: the driver passes the
  return code \<open>- 9\<close> to \<^verbatim>\<open>sys.exit\<close> and its own exit code is 247.
\<close>

theorem killed_test_counterexample:
  "dusk killed_run = Exits (- 9) \<and>
   encoder_starts full_machine
     (ScreenRecorder ''/recordings/a.webm'' '':99'' ''1920x1080'' 15 (own_pid killed_run)) \<and>
   fst (record_test_main full_machine killed_run ''tests/A.php'' ''/recordings/a.webm'' '':99''
          ''1920x1080'' 15 demo_world) = Exit 247"
  by code_simp

text \<open>
  Claim C10, amended.  When the encoder starts, the Dusk run ends with a return code
  and moving the recording meets no error of the operating system, the exit code of the
  driver is that return code modulo 256: the exit code of the test when the test exited
  by itself, and \<open>256 - n\<close> when signal \<open>n\<close> killed it.  Whether the recording was
  finalised has no part in it.  The last line printed is the warning that the recording
  file was not created exactly when the temporary file of the encoder is not there, and
  then the file system is left as the start of the encoder left it.
\<close>

theorem exit_code_is_return_code_mod_256:
  assumes "encoder_starts m (ScreenRecorder out d res f (own_pid t))"
    and "dusk t = Exits rc"
    and "finalise_error t = None"
    and "record_test_main m t test_file out d res f w = (status, w')"
  shows "status = Exit (rc mod 256) \<and>
         (0 \<le> rc \<and> rc < 256 \<longrightarrow> status = Exit rc) \<and>
         (last (stdout w') = ''WARNING: Recording file not created'')
            = (\<not> recording_written t (ScreenRecorder out d res f (own_pid t)) w) \<and>
         (\<not> recording_written t (ScreenRecorder out d res f (own_pid t)) w \<longrightarrow>
            fsys w' = makedirs_exist_ok (dirname out) (fsys w))"
proof -
  let ?r = "ScreenRecorder out d res f (own_pid t)"
  let ?w3 = "print ''Starting screen recording...''
              (if \<not> display_ready t
               then print ''Warning: Could not verify display is ready, continuing anyway...''
                      (print ''Waiting for virtual display...'' w)
               else print ''Waiting for virtual display...'' w)"
  have out: "sr_output_file ?r = out" by (simp add: ScreenRecorder_def)
  from assms(1) have ne: "out \<noteq> []"
    unfolding encoder_starts_def out using dirname_Nil by auto
  from ScreenRecorder_start_succeeds [OF assms(1), of ?w3]
  obtain pid w4 where st: "ScreenRecorder_start m ?r ?w3 = (Returns pid, ?r\<lparr>process := Some pid\<rparr>, w4)"
    and fs4: "fsys w4 = makedirs_exist_ok (dirname out) (fsys w)"
    unfolding out by (auto simp: print_def)
  let ?r' = "?r\<lparr>process := Some pid\<rparr>"
  let ?w6 = "print ''Stopping recording...'' (print ''Test completed''
               ((print ''Recording started'' w4)\<lparr>ran := ran (print ''Recording started'' w4)
                    @ [[Lit ''php'', Lit ''artisan'', Lit ''dusk'', Lit test_file]]\<rparr>))"
  let ?w7 = "case encoder_output t of None \<Rightarrow> ?w6
             | Some v \<Rightarrow> ?w6\<lparr>fsys := write_file (temp_file ?r') v (fsys ?w6)\<rparr>"
  obtain final w8 where stop: "ScreenRecorder_stop (signal_fails t) ?r' ?w7 = (final, w8)"
    by force
  have call: "ScreenRecorder_stop_call (finalise_error t) (signal_fails t) ?r' ?w7
                = (Returns final, w8)"
    unfolding ScreenRecorder_stop_call_def stop assms(3) by (simp split: option.splits)
  have "record_test_main m t test_file out d res f w =
      (sys_exit rc,
       (case final of
          None \<Rightarrow> print ''WARNING: Recording file not created'' w8
        | Some p \<Rightarrow>
            if p \<noteq> [] \<and> path_exists (fsys w8) p
            then (let w9 = print ''Size'' (print (''Recording saved: '' @ p) w8)
                  in if probe_duration t then print ''Duration'' w9 else w9)
            else print ''WARNING: Recording file not created'' w8))"
    unfolding record_test_main_def Let_def st run_dusk_test_def assms(2) subprocess_run_exits
    using call by (simp add: Let_def)
  with assms(4) have status: "status = sys_exit rc"
    and w': "w' = (case final of
          None \<Rightarrow> print ''WARNING: Recording file not created'' w8
        | Some p \<Rightarrow>
            if p \<noteq> [] \<and> path_exists (fsys w8) p
            then (let w9 = print ''Size'' (print (''Recording saved: '' @ p) w8)
                  in if probe_duration t then print ''Duration'' w9 else w9)
            else print ''WARNING: Recording file not created'' w8)"
    by simp_all
  have pr: "process ?r' = Some pid" by simp
  have tmp: "temp_file ?r' = temp_file ?r" by simp
  have "path_exists (fsys ?w7) (temp_file ?r) = recording_written t ?r w"
    unfolding recording_written_def out
    by (auto simp: print_def fs4 write_file_def path_exists_def makedirs_exist_ok_def
             split: option.splits)
  with ScreenRecorder_stop_none [OF pr stop]
  have none: "(final = None) = (\<not> recording_written t ?r w)"
    and same: "final = None \<Longrightarrow> fsys w8 = fsys ?w7"
    unfolding tmp by simp_all
  from ScreenRecorder_stop_result [OF stop]
  have cases: "final = None \<or> final = Some out \<and> path_exists (fsys w8) out"
    by (simp add: out)
  have code: "status = Exit (rc mod 256)"
    unfolding status by (simp add: sys_exit_def)
  have small: "0 \<le> rc \<and> rc < 256 \<longrightarrow> status = Exit rc"
    unfolding code by simp
  have warn: "(last (stdout w') = ''WARNING: Recording file not created'')
                = (\<not> recording_written t ?r w)"
  proof (cases final)
    case None
    then show ?thesis using none unfolding w' by (simp add: print_def)
  next
    case (Some p)
    with cases have "p = out" "path_exists (fsys w8) out" by simp_all
    then show ?thesis using none Some ne unfolding w' by (simp add: print_def Let_def)
  qed
  have fs: "\<not> recording_written t ?r w \<longrightarrow> fsys w' = makedirs_exist_ok (dirname out) (fsys w)"
  proof
    assume n: "\<not> recording_written t ?r w"
    with none have f: "final = None" by simp
    from n have "encoder_output t = None" by (simp add: recording_written_def)
    then have "fsys ?w7 = fsys w4" by (simp add: print_def)
    with same [OF f] fs4 show "fsys w' = makedirs_exist_ok (dirname out) (fsys w)"
      unfolding w' f by (simp add: print_def)
  qed
  from code small warn fs show ?thesis by blast
qed

text \<open>A failing test whose encoder never wrote its temporary file.\<close>

theorem exit_code_is_return_code_mod_256_witness:
  "fst (record_test_main full_machine demo_run ''tests/A.php'' ''/recordings/a.webm'' '':99''
          ''1920x1080'' 15 demo_world) = Exit 2 \<and>
   last (stdout (snd (record_test_main full_machine demo_run ''tests/A.php''
                        ''/recordings/a.webm'' '':99'' ''1920x1080'' 15 demo_world)))
     = ''WARNING: Recording file not created'' \<and>
   fsys (snd (record_test_main full_machine demo_run ''tests/A.php''
                        ''/recordings/a.webm'' '':99'' ''1920x1080'' 15 demo_world))
     = \<lparr>files = Map.empty, dirs = {''/recordings''}\<rparr>"
proof -
  have s: "encoder_starts full_machine
             (ScreenRecorder ''/recordings/a.webm'' '':99'' ''1920x1080'' 15 (own_pid demo_run))"
    by code_simp
  have d: "dusk demo_run = Exits 2" by (simp add: demo_run_def)
  have e: "finalise_error demo_run = None" by (simp add: demo_run_def)
  have n: "\<not> recording_written demo_run
             (ScreenRecorder ''/recordings/a.webm'' '':99'' ''1920x1080'' 15 (own_pid demo_run))
             demo_world"
    by code_simp
  have dn: "dirname ''/recordings/a.webm'' = ''/recordings''"
    by code_simp
  from exit_code_is_return_code_mod_256 [OF s d e surjective_pairing, of "''tests/A.php''" demo_world] n
  show ?thesis by (simp add: dn makedirs_exist_ok_def demo_world_def)
qed

text \<open>
  With an error of the operating system while the recording is moved,
  \<^verbatim>\<open>recorder.stop()\<close> raises and nothing catches it: the driver ends with the
  traceback, whatever the return code of the test was.
\<close>

lemma finalise_error_is_uncaught:
  assumes "encoder_starts m (ScreenRecorder out d res f (own_pid t))"
    and "dusk t = Exits rc"
    and "finalise_error t = Some e"
    and "recording_written t (ScreenRecorder out d res f (own_pid t)) w"
  shows "fst (record_test_main m t test_file out d res f w) = Uncaught e"
proof -
  let ?r = "ScreenRecorder out d res f (own_pid t)"
  let ?w3 = "print ''Starting screen recording...''
              (if \<not> display_ready t
               then print ''Warning: Could not verify display is ready, continuing anyway...''
                      (print ''Waiting for virtual display...'' w)
               else print ''Waiting for virtual display...'' w)"
  have out: "sr_output_file ?r = out" by (simp add: ScreenRecorder_def)
  from ScreenRecorder_start_succeeds [OF assms(1), of ?w3]
  obtain pid w4 where st: "ScreenRecorder_start m ?r ?w3 = (Returns pid, ?r\<lparr>process := Some pid\<rparr>, w4)"
    and fs4: "fsys w4 = makedirs_exist_ok (dirname out) (fsys w)"
    unfolding out by (auto simp: print_def)
  let ?r' = "?r\<lparr>process := Some pid\<rparr>"
  let ?w6 = "print ''Stopping recording...'' (print ''Test completed''
               ((print ''Recording started'' w4)\<lparr>ran := ran (print ''Recording started'' w4)
                    @ [[Lit ''php'', Lit ''artisan'', Lit ''dusk'', Lit test_file]]\<rparr>))"
  let ?w7 = "case encoder_output t of None \<Rightarrow> ?w6
             | Some v \<Rightarrow> ?w6\<lparr>fsys := write_file (temp_file ?r') v (fsys ?w6)\<rparr>"
  obtain final w8 where stop: "ScreenRecorder_stop (signal_fails t) ?r' ?w7 = (final, w8)"
    by force
  have pr: "process ?r' = Some pid" by simp
  have tmp: "temp_file ?r' = temp_file ?r" by simp
  have "path_exists (fsys ?w7) (temp_file ?r) = recording_written t ?r w"
    unfolding recording_written_def out
    by (auto simp: print_def fs4 write_file_def path_exists_def makedirs_exist_ok_def
             split: option.splits)
  with ScreenRecorder_stop_none [OF pr stop] assms(4)
  obtain p where final: "final = Some p"
    unfolding tmp by auto
  have call: "ScreenRecorder_stop_call (finalise_error t) (signal_fails t) ?r' ?w7
                = (Raises e, w8\<lparr>fsys := fsys ?w7\<rparr>)"
    unfolding ScreenRecorder_stop_call_def stop assms(3) final by simp
  show ?thesis
    unfolding record_test_main_def Let_def st run_dusk_test_def assms(2) subprocess_run_exits
    using call by (simp add: Let_def)
qed

subsection \<open>The headless recorder: a failed start and a signal\<close>

lemma str_int_99: "str_int 99 = ''99''" by code_simp

lemma xvfb_started: "start_xvfb full_machine (HeadlessRecorder DISPLAY_NUM SCREEN_SIZE) demo_world
   = (Returns 1, (HeadlessRecorder DISPLAY_NUM SCREEN_SIZE)\<lparr>xvfb_proc := Some 1\<rparr>, xvfb_up)"
  by (simp add: start_xvfb_def HeadlessRecorder_def DISPLAY_NUM_def SCREEN_SIZE_def Popen_def
        full_machine_def demo_world_def xvfb_up_def print_def str_int_99 well_behaved_def)

lemma split_size: "split_on CHR ''x'' SCREEN_SIZE = [''1920'', ''1080'', ''24'']"
  by (simp add: SCREEN_SIZE_def)

lemma encoder_started: "HeadlessRecorder_start_recording full_machine ''out/t.mp4''
     ((HeadlessRecorder DISPLAY_NUM SCREEN_SIZE)\<lparr>xvfb_proc := Some 1\<rparr>) xvfb_up
   = (Returns 2, (HeadlessRecorder DISPLAY_NUM SCREEN_SIZE)\<lparr>xvfb_proc := Some 1, ffmpeg_proc := Some 2\<rparr>,
      both_up)"
  by (simp add: HeadlessRecorder_start_recording_def HeadlessRecorder_def split_size
        DISPLAY_NUM_def Popen_def Let_def
        full_machine_def demo_world_def xvfb_up_def both_up_def print_def str_int_99 well_behaved_def
        makedirs_exist_ok_def path_parent_def)

lemma xvfb_started_without_encoder:
  "start_xvfb no_ffmpeg (HeadlessRecorder DISPLAY_NUM SCREEN_SIZE) demo_world
   = (Returns 1, (HeadlessRecorder DISPLAY_NUM SCREEN_SIZE)\<lparr>xvfb_proc := Some 1\<rparr>, xvfb_up)"
  by (simp add: start_xvfb_def HeadlessRecorder_def DISPLAY_NUM_def SCREEN_SIZE_def Popen_def
        no_ffmpeg_def demo_world_def xvfb_up_def print_def str_int_99 well_behaved_def)

lemma encoder_missing:
  "HeadlessRecorder_start_recording no_ffmpeg ''out/t.mp4''
     ((HeadlessRecorder DISPLAY_NUM SCREEN_SIZE)\<lparr>xvfb_proc := Some 1\<rparr>) xvfb_up
   = (Raises FileNotFoundError, (HeadlessRecorder DISPLAY_NUM SCREEN_SIZE)\<lparr>xvfb_proc := Some 1\<rparr>,
      xvfb_only)"
  by (simp add: HeadlessRecorder_start_recording_def HeadlessRecorder_def split_size
        DISPLAY_NUM_def Popen_def Let_def no_ffmpeg_def demo_world_def xvfb_up_def xvfb_only_def
        makedirs_exist_ok_def path_parent_def)

text \<open>
  Claim C7 at a failing input.  The display starts, the encoder executable is missing:
  \<^verbatim>\<open>start_recording\<close> raises, the display process is still running, no signal
  was sent to it, and no process file was written from which a later stop could find
  it.
\<close>

theorem failed_begin_leaves_display_running:
  "headless_start_recording no_ffmpeg ''out/t.mp4'' DISPLAY_NUM SCREEN_SIZE demo_world
     = (Raises FileNotFoundError, xvfb_only) \<and>
   map (\<lambda>p. (hd (argv p), alive p, received p)) (procs xvfb_only) = [(''Xvfb'', True, [])] \<and>
   running xvfb_only 1 \<and>
   files (fsys xvfb_only) PID_FILE = None \<and> PID_FILE \<notin> dirs (fsys xvfb_only)"
  by (simp only: headless_start_recording_def xvfb_started_without_encoder encoder_missing
        prod.case outcome.case simp_thms)
     (simp add: xvfb_only_def xvfb_up_def well_behaved_def running_def proc_of_def
        PID_FILE_def demo_world_def)

lemma command_terminated:
  "subprocess_run python_default full_machine [''/bin/sh'', ''-c'', ''php artisan dusk'']
      (Interrupted SIGTERM) both_up = (Died SIGTERM, test_running)"
  by (simp add: subprocess_run_def Popen_def full_machine_def test_running_def well_behaved_def)

lemma test_running_procs:
  "map (\<lambda>p. (hd (argv p), alive p, received p)) (procs test_running)
     = [(''Xvfb'', True, []), (''ffmpeg'', True, []), (''/bin/sh'', True, [])]"
  by (simp add: test_running_def both_up_def xvfb_up_def well_behaved_def)

text \<open>
  Claim C2 at a failing input.  \<^verbatim>\<open>SIGTERM\<close> reaches \<^verbatim>\<open>run_with_recording\<close>
  while the command runs: the script ends at once, and the display, the encoder and
  the command are all still running, none of them signalled.
\<close>

theorem sigterm_skips_cleanup:
  "run_with_recording full_machine (Interrupted SIGTERM) ''php artisan dusk'' ''out/t.mp4''
       DISPLAY_NUM demo_world = (Died SIGTERM, test_running) \<and>
   map (\<lambda>p. (hd (argv p), alive p, received p)) (procs test_running)
     = [(''Xvfb'', True, []), (''ffmpeg'', True, []), (''/bin/sh'', True, [])]"
  by (simp only: run_with_recording_def xvfb_started encoder_started command_terminated test_running_procs
        prod.case outcome.case progress.case simp_thms)

lemma command_interrupted:
  "subprocess_run python_default full_machine [''/bin/sh'', ''-c'', ''php artisan dusk'']
      (Interrupted SIGINT) both_up
     = (Went (Raises KeyboardInterrupt), send_signal 3 SIGKILL test_running)"
  by (simp add: subprocess_run_def Popen_def full_machine_def test_running_def both_up_def
        xvfb_up_def well_behaved_def numeral_3_eq_3)

lemma all_stopped_procs:
  "map (\<lambda>p. (hd (argv p), alive p, received p)) (procs all_stopped)
     = [(''Xvfb'', False, [SIGTERM]), (''ffmpeg'', False, []), (''/bin/sh'', False, [SIGKILL])]"
  by (simp add: all_stopped_def HeadlessRecorder_stop_def HeadlessRecorder_def Let_def
        send_signal_def stdin_q_def running_def proc_of_def deliver_def
        test_running_def both_up_def xvfb_up_def well_behaved_def)

text \<open>With \<^verbatim>\<open>SIGINT\<close> in the same place the \<^verbatim>\<open>finally\<close> block runs and all three end.\<close>

lemma sigint_runs_cleanup:
  "run_with_recording full_machine (Interrupted SIGINT) ''php artisan dusk'' ''out/t.mp4''
       DISPLAY_NUM demo_world = (Went (Raises KeyboardInterrupt), all_stopped)"
  by (simp only: run_with_recording_def xvfb_started encoder_started command_interrupted all_stopped_def
        prod.case outcome.case progress.case)

subsection \<open>The entrypoint stops its services on every exit\<close>

lemma stop_each_stops:
  "running (stop_each ps w) pid \<Longrightarrow> running w pid \<and> pid \<notin> snd ` set ps"
proof (induction ps arbitrary: w)
  case Nil
  then show ?case by simp
next
  case (Cons a ps)
  obtain name q where a: "a = (name, q)" by (cases a)
  show ?case
  proof (cases "running w q")
    case False
    with Cons.prems a have "running (stop_each ps w) pid" by simp
    from Cons.IH [OF this] False a show ?thesis by auto
  next
    case True
    define wt where "wt = send_signal q SIGTERM w"
    define wk where "wk = (if running wt q then send_signal q SIGKILL wt else wt)"
    have "stop_each (a # ps) w = stop_each ps (print (''Stopped '' @ name) wk)"
      by (simp only: a stop_each.simps True if_True Let_def wt_def wk_def)
    with Cons.prems have "running (stop_each ps (print (''Stopped '' @ name) wk)) pid"
      by simp
    from Cons.IH [OF this] have r: "running wk pid" and n: "pid \<notin> snd ` set ps" by simp_all
    have "\<not> running wk q" by (simp add: wk_def not_running_after_kill)
    with r have "pid \<noteq> q" by auto
    moreover from r have "running w pid"
      by (auto simp: wk_def wt_def dest: running_send_signal split: if_splits)
    ultimately show ?thesis using n a by simp
  qed
qed

lemma subprocess_run_entrypoint:
  "ev \<noteq> Interrupted SIGKILL \<Longrightarrow> subprocess_run entrypoint_handlers m cmd ev w = (res, w') \<Longrightarrow>
     (\<exists>x. res = Went x) \<and> (\<forall>pid. running w' pid \<longrightarrow> running w pid)"
proof (cases ev)
  case (Exits rc)
  assume "subprocess_run entrypoint_handlers m cmd ev w = (res, w')"
  with Exits show ?thesis by (auto simp: subprocess_run_def running_def proc_of_def)
next
  case NoSuchProgram
  assume "subprocess_run entrypoint_handlers m cmd ev w = (res, w')"
  with NoSuchProgram show ?thesis by (auto simp: subprocess_run_def)
next
  case (Interrupted s)
  assume ne: "ev \<noteq> Interrupted SIGKILL"
    and run: "subprocess_run entrypoint_handlers m cmd ev w = (res, w')"
  obtain r1 w1 where p: "Popen m cmd w = (r1, w1)" by force
  from ne Interrupted obtain e where h: "entrypoint_handlers s = Some e"
    by (cases s) auto
  show ?thesis
  proof (cases r1)
    case (Raises e')
    with p run Interrupted show ?thesis
      by (auto simp: subprocess_run_def dest: Popen_raises_same)
  next
    case (Returns q)
    with p run Interrupted h have res: "res = Went (Raises e)" and w': "w' = send_signal q SIGKILL w1"
      by (simp_all add: subprocess_run_def)
    have "running w pid" if "running w' pid" for pid
    proof -
      from that have a: "running w1 pid" unfolding w' by (rule running_send_signal)
      have "pid \<noteq> q" using that not_running_after_kill [of q w1] unfolding w' by auto
      with running_Popen [OF p a] Returns show ?thesis by simp
    qed
    with res show ?thesis by blast
  qed
qed

lemma contained_print [simp]: "contained w0 sm (print l w) = contained w0 sm w"
  by (simp add: contained_def)

lemma at_exit_stops_pair:
  "contained w0 sm w \<Longrightarrow> at_exit sm e w = (st, w') \<Longrightarrow>
     (\<forall>s. st \<noteq> Terminated s) \<and> (\<forall>pid. running w' pid \<longrightarrow> running w0 pid)"
  by (cases e) (auto simp: at_exit_def sys_exit_def stop_all_def contained_def dest!: stop_each_stops)

lemma at_exit_stops_all:
  "contained w0 sm w \<Longrightarrow>
     (\<forall>s. fst (at_exit sm e w) \<noteq> Terminated s) \<and>
     (\<forall>pid. running (snd (at_exit sm e w)) pid \<longrightarrow> running w0 pid)"
  using at_exit_stops_pair [OF _ surjective_pairing] by blast

lemma sleep_entrypoint:
  "incoming \<noteq> Some SIGKILL \<Longrightarrow> \<exists>x. sleep entrypoint_handlers incoming = Went x"
  by (cases incoming; cases "the incoming") (auto simp: sleep_def)

lemma contained_Popen:
  "contained w0 sm w \<Longrightarrow> Popen m cmd w = (Returns pid, w1) \<Longrightarrow>
     contained w0 (sm\<lparr>processes := processes sm @ [(name, pid)]\<rparr>) w1"
  unfolding contained_def
proof (intro allI impI)
  fix q
  assume c: "\<forall>pid. running w pid \<longrightarrow> running w0 pid \<or> pid \<in> snd ` set (processes sm)"
    and p: "Popen m cmd w = (Returns pid, w1)" and r: "running w1 q"
  from running_Popen [OF p r] have "running w q \<or> q = pid" by auto
  with c show "running w0 q \<or> q \<in> snd ` set (processes (sm\<lparr>processes := processes sm @ [(name, pid)]\<rparr>))"
    by force
qed

lemma contained_mono:
  "contained w0 sm w \<Longrightarrow> \<forall>pid. running w' pid \<longrightarrow> running w pid \<Longrightarrow> contained w0 sm w'"
  by (auto simp: contained_def)

lemma start_xvfb_contained:
  assumes "contained w0 sm w" and "at_xvfb_wait c \<noteq> Some SIGKILL" and "xdpyinfo c \<noteq> Interrupted SIGKILL"
    and "ServiceManager_start_xvfb m c d res sm w = (r, sm1, w1)"
  shows "(\<exists>x. r = Went x) \<and> contained w0 sm1 w1"
proof -
  obtain r0 w' where p: "Popen m [''Xvfb'', d, ''-screen'', ''0'', res, ''-ac''] w = (r0, w')"
    by force
  show ?thesis
  proof (cases r0)
    case (Raises e)
    with p assms(4) have "r = Went (Raises e)" "sm1 = sm" "w1 = w'"
      by (simp_all add: ServiceManager_start_xvfb_def)
    moreover from p Raises have "w' = w" by (auto dest: Popen_raises_same)
    ultimately show ?thesis using assms(1) by simp
  next
    case (Returns pid)
    let ?sm = "sm\<lparr>processes := processes sm @ [(''Xvfb'', pid)]\<rparr>"
    from p Returns have c1: "contained w0 ?sm w'"
      using contained_Popen [OF assms(1)] by simp
    from sleep_entrypoint [OF assms(2)] obtain x where sl: "sleep entrypoint_handlers (at_xvfb_wait c) = Went x"
      by blast
    show ?thesis
    proof (cases x)
      case (Raises e)
      with p Returns sl assms(4) have "r = Went (Raises e)" "sm1 = ?sm" "w1 = w'"
        by (simp_all add: ServiceManager_start_xvfb_def Let_def)
      with c1 show ?thesis by simp
    next
      case R: (Returns u)
      obtain r2 w2 where run: "subprocess_run entrypoint_handlers m [''xdpyinfo'', ''-display'', d]
                          (xdpyinfo c) w' = (r2, w2)" by force
      from subprocess_run_entrypoint [OF assms(3) run]
      obtain y where y: "r2 = Went y" and live: "\<forall>pid. running w2 pid \<longrightarrow> running w' pid"
        by blast
      have c2: "contained w0 ?sm w2" by (rule contained_mono [OF c1 live])
      from p Returns sl R run y assms(4)
      have "(\<exists>b. r = Went (Returns b)) \<and> sm1 = ?sm \<and> (\<exists>l. w1 = print l w2)"
        by (cases y) (auto simp: ServiceManager_start_xvfb_def Let_def split: if_splits)
      with c2 show ?thesis by auto
    qed
  qed
qed

lemma start_chromedriver_contained:
  assumes "contained w0 sm w" and "at_chromedriver_wait c \<noteq> Some SIGKILL"
    and "start_chromedriver m c port sm w = (r, sm1, w1)"
  shows "(\<exists>x. r = Went x) \<and> contained w0 sm1 w1"
proof -
  obtain r0 w' where p: "Popen m [''chromedriver'', ''--port='' @ str_int port, ''--whitelisted-ips=''] w
                           = (r0, w')"
    by force
  show ?thesis
  proof (cases r0)
    case (Raises e)
    with p assms(3) have "r = Went (Raises e)" "sm1 = sm" "w1 = w'"
      by (simp_all add: start_chromedriver_def)
    moreover from p Raises have "w' = w" by (auto dest: Popen_raises_same)
    ultimately show ?thesis using assms(1) by simp
  next
    case (Returns pid)
    let ?sm = "sm\<lparr>processes := processes sm @ [(''ChromeDriver'', pid)]\<rparr>"
    from p Returns have c1: "contained w0 ?sm w'"
      using contained_Popen [OF assms(1)] by simp
    from sleep_entrypoint [OF assms(2)] obtain x
      where sl: "sleep entrypoint_handlers (at_chromedriver_wait c) = Went x"
      by blast
    from p Returns sl assms(3)
    have "(\<exists>y. r = Went y) \<and> sm1 = ?sm \<and> (w1 = w' \<or> (\<exists>l. w1 = print l w'))"
      by (cases x) (auto simp: start_chromedriver_def Let_def split: if_splits)
    with c1 show ?thesis by auto
  qed
qed

text \<open>
  The entrypoint of the container installs handlers for both signals.  However its
  run ends, short of \<^verbatim>\<open>SIGKILL\<close>, it ends through the exit hook, and no process that
  it started itself is running afterwards.  (What the recording driver started is the
  driver's to stop; the entrypoint reaches its own children only.)
\<close>

lemma entrypoint_stops_every_child:
  assumes "no_sigkill c"
  shows "(\<forall>s. fst (entrypoint_main m c test_file output_name d res f port w) \<noteq> Terminated s) \<and>
         (\<forall>pid. running (snd (entrypoint_main m c test_file output_name d res f port w)) pid
                  \<longrightarrow> running w pid)"
proof (cases "test_file = None \<or> test_file = Some []")
  case True
  then show ?thesis by (auto simp: entrypoint_main_def sys_exit_def)
next
  case False
  then obtain tf where tf: "test_file = Some tf" "tf \<noteq> []" by auto
  let ?w0 = "print ''Starting services...'' w"
  have c0: "contained w \<lparr>processes = []\<rparr> ?w0" by (simp add: contained_def)
  obtain r1 sm1 w1 where x: "ServiceManager_start_xvfb m c d (res @ ''x24'') \<lparr>processes = []\<rparr> ?w0 = (r1, sm1, w1)"
    using prod_cases3 by blast
  from assms have k: "at_xvfb_wait c \<noteq> Some SIGKILL" "xdpyinfo c \<noteq> Interrupted SIGKILL"
      "at_chromedriver_wait c \<noteq> Some SIGKILL" "record_test c \<noteq> Interrupted SIGKILL"
    by (simp_all add: no_sigkill_def)
  from start_xvfb_contained [OF c0 k(1,2) x] obtain y1 where y1: "r1 = Went y1" and c1: "contained w sm1 w1"
    by blast
  note x' = x [unfolded y1]
  show ?thesis
  proof (cases y1)
    case (Raises e)
    have "entrypoint_main m c test_file output_name d res f port w = at_exit sm1 e w1"
      unfolding entrypoint_main_def tf(1) x' Raises
      by (simp only: tf(2) option.case if_False prod.case progress.case outcome.case)
    then show ?thesis using at_exit_stops_all [OF c1, of e] by simp
  next
    case (Returns ok)
    show ?thesis
    proof (cases ok)
      case False
      have "entrypoint_main m c test_file output_name d res f port w
          = at_exit sm1 (SystemExit 1) (print ''ERROR: Failed to start virtual display'' w1)"
        unfolding entrypoint_main_def tf(1) x' Returns
        by (simp only: tf(2) False option.case if_False if_True prod.case progress.case outcome.case simp_thms)
      moreover have "contained w sm1 (print ''ERROR: Failed to start virtual display'' w1)"
        using c1 by simp
      note at_exit_stops_all [OF this, of "SystemExit 1"]
      ultimately show ?thesis by simp
    next
      case True
      obtain r2 sm2 w2 where ch: "start_chromedriver m c port sm1 w1 = (r2, sm2, w2)"
        using prod_cases3 by blast
      from start_chromedriver_contained [OF c1 k(3) ch]
      obtain y2 where y2: "r2 = Went y2" and c2: "contained w sm2 w2" by blast
      note ch' = ch [unfolded y2]
      show ?thesis
      proof (cases y2)
        case (Raises e)
        have "entrypoint_main m c test_file output_name d res f port w = at_exit sm2 e w2"
          unfolding entrypoint_main_def tf(1) x' Returns
          by (simp only: tf(2) True ch' Raises option.case if_False if_True prod.case progress.case outcome.case simp_thms)
        then show ?thesis using at_exit_stops_all [OF c2, of e] by simp
      next
        case R2: (Returns ok2)
        show ?thesis
        proof (cases ok2)
          case False
          have "entrypoint_main m c test_file output_name d res f port w
              = at_exit sm2 (SystemExit 1) (print ''ERROR: Failed to start ChromeDriver'' w2)"
            unfolding entrypoint_main_def tf(1) x' Returns
            by (simp only: tf(2) True ch' R2 False option.case if_False if_True prod.case progress.case outcome.case simp_thms)
          moreover have "contained w sm2 (print ''ERROR: Failed to start ChromeDriver'' w2)"
            using c2 by simp
          note at_exit_stops_all [OF this, of "SystemExit 1"]
          ultimately show ?thesis by simp
        next
          case T2: True
          let ?w2 = "print ''Services ready. Starting test recording...'' w2"
          let ?kw = "[(''display'', Some d), (''resolution'', Some res), (''fps'', Some (str_int f))]"
          obtain r3 w3 where rr: "run_recording m (record_test c) tf output_name ?kw ?w2 = (r3, w3)"
            by force
          then obtain cmd where "subprocess_run entrypoint_handlers m cmd (record_test c) ?w2 = (r3, w3)"
            unfolding run_recording_def Let_def by blast
          from subprocess_run_entrypoint [OF k(4) this]
          obtain y3 where y3: "r3 = Went y3" and live: "\<forall>pid. running w3 pid \<longrightarrow> running ?w2 pid"
            by blast
          have c3: "contained w sm2 w3"
            by (rule contained_mono [OF _ live]) (simp add: c2)
          note rr' = rr [unfolded y3]
          have "\<exists>e. entrypoint_main m c test_file output_name d res f port w = at_exit sm2 e w3"
          proof (cases y3)
            case (Raises e)
            have "entrypoint_main m c test_file output_name d res f port w = at_exit sm2 e w3"
              unfolding entrypoint_main_def tf(1) x' Returns
              by (simp only: tf(2) True ch' R2 T2 rr' Raises option.case if_False if_True prod.case progress.case outcome.case simp_thms)
            then show ?thesis ..
          next
            case R3: (Returns code)
            have "entrypoint_main m c test_file output_name d res f port w = at_exit sm2 (SystemExit code) w3"
              unfolding entrypoint_main_def tf(1) x' Returns
              by (simp only: tf(2) True ch' R2 T2 rr' R3 option.case if_False if_True prod.case progress.case outcome.case simp_thms)
            then show ?thesis ..
          qed
          then obtain e where "entrypoint_main m c test_file output_name d res f port w = at_exit sm2 e w3" ..
          then show ?thesis using at_exit_stops_all [OF c3, of e] by simp
        qed
      qed
    qed
  qed
qed

end
